theory Spec2Isabelle
  imports Main
begin

text \<open>
  The access server of the RFID gate system, embedded from its JavaScript sources. The
  repository holds the server in several variants:
  \<^item> \<open>src/unnamed/part_000\<close>, written with promise chains: the "first variant",
    definitions with the suffix \<open>_000\<close>;
  \<^item> \<open>src/unnamed/part_001\<close>, written with \<open>async\<close>/\<open>await\<close>: the "second variant",
    definitions with the suffix \<open>_001\<close>;
  \<^item> \<open>src/serverfixing.js\<close>, which holds only the enrollment handler and
    \<open>logToFirebase\<close>, both with the text of the first variant.
  A definition without a suffix is code that the variants share word for word.
\<close>

section \<open>Strings of the serial protocol\<close>

text \<open>
  A JavaScript string is modelled as a \<open>string\<close> (a list of 8-bit characters): the code
  units below 256, which covers the ASCII lines the readers send. \<open>trim\<close> removes the
  white space and line terminators of ECMAScript that lie in that range from both ends.
\<close>

definition isWhiteSpace :: "char \<Rightarrow> bool" where
  "isWhiteSpace c =
     (c \<in> set [CHR 0x09, CHR 0x0A, CHR 0x0B, CHR 0x0C, CHR 0x0D, CHR 0x20, CHR 0xA0])"

definition trim :: "string \<Rightarrow> string" where
  "trim s = rev (dropWhile isWhiteSpace (rev (dropWhile isWhiteSpace s)))"

text \<open>
  \<open>toLowerCase\<close> on code units below 256: the ASCII capitals and the Latin-1 capitals
  (0xC0 to 0xDE without the multiplication sign 0xD7) move up by 32.
\<close>

definition toLowerCase_char :: "char \<Rightarrow> char" where
  "toLowerCase_char c =
     (let n = (of_char c :: nat)
      in if (65 \<le> n \<and> n \<le> 90) \<or> (192 \<le> n \<and> n \<le> 222 \<and> n \<noteq> 215)
         then char_of (n + 32) else c)"

definition toLowerCase :: "string \<Rightarrow> string" where
  "toLowerCase s = map toLowerCase_char s"

text \<open>\<open>haystack.includes(needle)\<close>: the needle occurs as a contiguous, case-sensitive run.\<close>

fun str_includes :: "string \<Rightarrow> string \<Rightarrow> bool" where
  "str_includes [] needle = (needle = [])"
| "str_includes (c # cs) needle =
     (take (length needle) (c # cs) = needle \<or> str_includes cs needle)"

text \<open>Decimal text of a clock reading, as a template literal prints a number.\<close>

function show_digits :: "int \<Rightarrow> string" where
  "show_digits n =
     (if n < 10 then [''0123456789'' ! nat n]
      else show_digits (n div 10) @ [''0123456789'' ! nat (n mod 10)])"
  by pat_completeness auto
termination
  by (relation "measure nat") auto

declare show_digits.simps [simp del]

definition show_int :: "int \<Rightarrow> string" where
  "show_int i = (if i < 0 then CHR ''-'' # show_digits (- i) else show_digits i)"

section \<open>Tag validation\<close>

text \<open>
  \<open>isValidUID\<close> tests the regular expression \<open>/^[0-9A-F]{8}$/i\<close>: exactly eight
  characters, each a hexadecimal digit of either case. The function is the same in both
  server variants (the first one also prints the outcome, which \<open>handleReaderData_000\<close>
  records).
\<close>

definition isHexDigit :: "char \<Rightarrow> bool" where
  "isHexDigit c = (c \<in> set ''0123456789ABCDEFabcdef'')"

definition isValidUID :: "string \<Rightarrow> bool" where
  "isValidUID uid = (length uid = 8 \<and> list_all isHexDigit uid)"

text \<open>\<open>isPingResponse\<close> exists in the first variant only.\<close>

definition isPingResponse :: "string \<Rightarrow> bool" where
  "isPingResponse data = (toLowerCase (trim data) = ''ping'')"

section \<open>Effects, documents and the outcomes of store calls\<close>

datatype level = INFO | SUCCESS | ERROR | WARNING

datatype js_value = JNull | JBool bool | JNum int | JStr string | JDate int

type_synonym document = "(string \<times> js_value) list"

text \<open>Truthiness of a stored value, as an \<open>if\<close> of the language sees it.\<close>

definition truthy :: "js_value \<Rightarrow> bool" where
  "truthy v =
     (case v of
        JNull \<Rightarrow> False
      | JBool b \<Rightarrow> b
      | JNum n \<Rightarrow> n \<noteq> 0
      | JStr s \<Rightarrow> s \<noteq> []
      | JDate t \<Rightarrow> True)"

text \<open>
  What a handler does to the outside world, in program order:
  \<^item> \<open>Log\<close>: a call of \<open>logWithTimestamp\<close> (first variant);
  \<^item> \<open>LogJson\<close>: the one log line that appends \<open>JSON.stringify\<close> of a document;
  \<^item> \<open>ConsoleError\<close>, \<open>ConsoleLog\<close>: the console calls of the second variant;
  \<^item> \<open>Respond port message\<close>: a call \<open>writeToSerialPort(port, message)\<close>, one response
    line handed to the channel (the re-attempts that function makes on a failing port
    stay inside it and are not part of this model);
  \<^item> \<open>DbGet collection key\<close>: a read \<open>db.collection(..).doc(..).get()\<close>;
  \<^item> \<open>DbSet collection key fields\<close>: a write \<open>db.collection(..).doc(..).set(..)\<close>.
\<close>

datatype effect =
    Log level string
  | LogJson level string document
  | ConsoleError string
  | ConsoleLog string
  | Respond string string
  | DbGet string string
  | DbSet string string document

text \<open>A document snapshot: \<open>exists\<close> is false, or it is true and \<open>data()\<close> is the document.\<close>

datatype snapshot = NoDocument | Document document

text \<open>How a promise of the store settles: rejected with an error message, or fulfilled.\<close>

datatype 'a settled = is_Rejected: Rejected (message: string) | Fulfilled 'a

text \<open>\<open>docSnapshot.exists ? docSnapshot.data() : null\<close>\<close>

definition snapshot_data :: "snapshot \<Rightarrow> document option" where
  "snapshot_data docSnapshot = (case docSnapshot of NoDocument \<Rightarrow> None | Document d \<Rightarrow> Some d)"

definition responses :: "effect list \<Rightarrow> string list" where
  "responses es = concat (map (\<lambda>e. case e of Respond p m \<Rightarrow> [m] | _ \<Rightarrow> []) es)"

definition reads :: "effect list \<Rightarrow> (string \<times> string) list" where
  "reads es = concat (map (\<lambda>e. case e of DbGet c k \<Rightarrow> [(c, k)] | _ \<Rightarrow> []) es)"

definition writes :: "effect list \<Rightarrow> (string \<times> string) list" where
  "writes es = concat (map (\<lambda>e. case e of DbSet c k d \<Rightarrow> [(c, k)] | _ \<Rightarrow> []) es)"

text \<open>
  The \<open>status\<close> fields written to \<open>all_rfid_logs\<close>, and the \<open>message\<close> fields written
  to any collection (the message is the reason \<open>logToFirebase\<close> was given).
\<close>

definition audit_statuses :: "effect list \<Rightarrow> js_value option list" where
  "audit_statuses es =
     concat (map (\<lambda>e. case e of
                         DbSet c k d \<Rightarrow> if c = ''all_rfid_logs'' then [map_of d ''status''] else []
                       | _ \<Rightarrow> []) es)"

definition audit_messages :: "effect list \<Rightarrow> js_value list" where
  "audit_messages es =
     concat (map (\<lambda>e. case e of
                         DbSet c k d \<Rightarrow> (case map_of d ''message'' of None \<Rightarrow> [] | Some m \<Rightarrow> [m])
                       | _ \<Rightarrow> []) es)"

definition errors_logged :: "effect list \<Rightarrow> string list" where
  "errors_logged es =
     concat (map (\<lambda>e. case e of Log ERROR m \<Rightarrow> [m] | ConsoleError m \<Rightarrow> [m] | _ \<Rightarrow> []) es)"

section \<open>The resolver: fetchResidentDataWithRetry\<close>

text \<open>
  The store is an input of the model: \<open>get k\<close> is how the \<open>k\<close>-th \<open>get()\<close> call of one
  resolution settles (counting from 0). Both functions return the reads they issued and
  the way their promise settles; a fulfilled \<open>None\<close> is the falsy result (\<open>null\<close> for a
  missing document, \<open>undefined\<close> when the loop of the second variant is never entered).

  First variant (promise chain): \<open>attempt\<close> counts the failures so far and a rejected read
  is retried while \<open>attempt < retries\<close>.
\<close>

function tryFetching_000 ::
  "string \<Rightarrow> nat \<Rightarrow> (nat \<Rightarrow> snapshot settled) \<Rightarrow> nat \<Rightarrow> effect list \<times> document option settled"
where
  "tryFetching_000 uid retries get attempt =
     (case get attempt of
        Fulfilled docSnapshot \<Rightarrow>
          ([DbGet ''residents'' uid], Fulfilled (snapshot_data docSnapshot))
      | Rejected msg \<Rightarrow>
          if attempt < retries then
            (case tryFetching_000 uid retries get (attempt + 1) of
               (es, r) \<Rightarrow> (DbGet ''residents'' uid # es, r))
          else
            ([DbGet ''residents'' uid],
             Rejected (''Failed to fetch data for UID '' @ uid @ '': '' @ msg)))"
  by pat_completeness auto
termination
  by (relation "measure (\<lambda>(uid, retries, get, attempt). retries - attempt)") auto

declare tryFetching_000.simps [simp del]

definition fetchResidentDataWithRetry_000 ::
  "string \<Rightarrow> nat \<Rightarrow> (nat \<Rightarrow> snapshot settled) \<Rightarrow> effect list \<times> document option settled"
where
  "fetchResidentDataWithRetry_000 uid retries get = tryFetching_000 uid retries get 0"

text \<open>
  Second variant (\<open>while (attempt < retries)\<close> with \<open>try\<close>/\<open>catch\<close>): a rejected read
  increments \<open>attempt\<close> and rethrows the error once \<open>attempt === retries\<close>.
\<close>

function fetchLoop_001 ::
  "string \<Rightarrow> nat \<Rightarrow> (nat \<Rightarrow> snapshot settled) \<Rightarrow> nat \<Rightarrow> effect list \<times> document option settled"
where
  "fetchLoop_001 uid retries get attempt =
     (if attempt < retries then
        (case get attempt of
           Fulfilled docSnapshot \<Rightarrow>
             ([DbGet ''residents'' uid], Fulfilled (snapshot_data docSnapshot))
         | Rejected msg \<Rightarrow>
             if attempt + 1 = retries then ([DbGet ''residents'' uid], Rejected msg)
             else
               (case fetchLoop_001 uid retries get (attempt + 1) of
                  (es, r) \<Rightarrow> (DbGet ''residents'' uid # es, r)))
      else ([], Fulfilled None))"
  by pat_completeness auto
termination
  by (relation "measure (\<lambda>(uid, retries, get, attempt). retries - attempt)") auto

declare fetchLoop_001.simps [simp del]

definition fetchResidentDataWithRetry_001 ::
  "string \<Rightarrow> nat \<Rightarrow> (nat \<Rightarrow> snapshot settled) \<Rightarrow> effect list \<times> document option settled"
where
  "fetchResidentDataWithRetry_001 uid retries get = fetchLoop_001 uid retries get 0"

text \<open>A store script for concrete runs: the listed outcomes in order, then \<open>rest\<close> for ever.\<close>

definition script :: "'a list \<Rightarrow> 'a \<Rightarrow> nat \<Rightarrow> 'a" where
  "script outcomes rest k = (if k < length outcomes then outcomes ! k else rest)"

section \<open>Per-channel state and the cooldown gate\<close>

text \<open>
  Each reader channel owns a pending queue and a cooldown cache (an object used as a map
  from a tag to the clock reading of its last dequeue). The window is the constant
  \<open>cooldownTime\<close> of each server file.
\<close>

record channel_state =
  queue :: "string list"
  cooldownCache :: "string \<Rightarrow> int option"

definition cooldownTime_000 :: int where
  "cooldownTime_000 = 180000"

definition cooldownTime_001 :: int where
  "cooldownTime_001 = 10000"

text \<open>
  The guard of \<open>handleReaderData\<close>:
  \<open>!queue.includes(uid) && (!cooldownCache[uid] || currentTime - cooldownCache[uid] >= cooldownTime)\<close>.
  \<open>!cooldownCache[uid]\<close> holds for a missing entry and, by the truthiness of numbers, for
  a stored reading of 0.
\<close>

definition admit :: "int \<Rightarrow> channel_state \<Rightarrow> string \<Rightarrow> int \<Rightarrow> bool" where
  "admit cooldownTime s uid currentTime =
     (uid \<notin> set (queue s) \<and>
      (case cooldownCache s uid of
         None \<Rightarrow> True
       | Some stamped \<Rightarrow> stamped = 0 \<or> cooldownTime \<le> currentTime - stamped))"

text \<open>\<open>queue.push(uid)\<close>\<close>

definition push :: "channel_state \<Rightarrow> string \<Rightarrow> channel_state" where
  "push s uid = s\<lparr>queue := queue s @ [uid]\<rparr>"

text \<open>
  The synchronous head of \<open>processQueue\<close>, the same in both variants: return on an empty
  queue, else \<open>queue.shift()\<close> and \<open>cooldownCache[uid] = Date.now()\<close>. The result names the
  tag whose resolution starts.
\<close>

definition processQueue :: "channel_state \<Rightarrow> int \<Rightarrow> channel_state \<times> string option" where
  "processQueue s currentTime =
     (case queue s of
        [] \<Rightarrow> (s, None)
      | uid # rest \<Rightarrow>
          (s\<lparr>queue := rest, cooldownCache := (cooldownCache s)(uid \<mapsto> currentTime)\<rparr>, Some uid))"

section \<open>The audit logger\<close>

text \<open>
  What the audit writes of one resolution read from their environment:
  \<^item> \<open>stamp\<close>: the \<open>new Date()\<close> of \<open>logToFirebase\<close>;
  \<^item> \<open>key_time\<close>: the \<open>Date.now()\<close> in the key of the \<open>all_rfid_logs\<close> document;
  \<^item> \<open>all_write\<close>: how the write to \<open>all_rfid_logs\<close> settles;
  \<^item> \<open>second_stamp\<close>: the \<open>new Date()\<close> of \<open>logDeniedUID\<close> (second variant);
  \<^item> \<open>second_key_time\<close>: the \<open>Date.now()\<close> in the key of the denied document;
  \<^item> \<open>second_write\<close>: how the second write settles (the first variant drops that
    promise, so there its outcome is never looked at).
\<close>

record audit_env =
  stamp :: int
  key_time :: int
  all_write :: "unit settled"
  second_stamp :: int
  second_key_time :: int
  second_write :: "unit settled"

definition logCollection :: "string \<Rightarrow> string" where
  "logCollection mode =
     (if str_includes mode ''Entry'' then ''latest_accepted_entry_log'' else ''latest_exit_log'')"

text \<open>
  First variant: the write to \<open>all_rfid_logs\<close>, then in its \<open>then\<close> callback the second
  write, whose promise is dropped; a rejected first write is logged by the \<open>catch\<close>.
\<close>

definition logToFirebase_000 ::
  "string \<Rightarrow> string \<Rightarrow> string \<Rightarrow> string \<Rightarrow> audit_env \<Rightarrow> effect list"
where
  "logToFirebase_000 uid status mode msg env =
     DbSet ''all_rfid_logs'' (uid @ ''-'' @ show_int (key_time env))
       [(''rfidTag'', JStr uid), (''timestamp'', JDate (stamp env)),
        (''status'', JStr status), (''mode'', JStr mode)] #
     (case all_write env of
        Fulfilled u \<Rightarrow>
          if status = ''accepted'' then
            [DbSet (logCollection mode) uid
               [(''rfidTag'', JStr uid), (''timestamp'', JDate (stamp env)),
                (''status'', JStr status), (''mode'', JStr mode), (''message'', JStr msg)]]
          else if status = ''denied'' then
            [DbSet ''denied_uid'' (uid @ ''-'' @ show_int (second_key_time env))
               [(''rfidTag'', JStr uid), (''timestamp'', JDate (stamp env)),
                (''status'', JStr status), (''message'', JStr msg)]]
          else []
      | Rejected e \<Rightarrow> [Log ERROR (''Error logging to Firebase: '' @ e)])"

text \<open>
  Second variant: both writes are awaited, so the function rejects when one of them does;
  a denied status makes no second write here (\<open>logDeniedUID\<close> does it).
\<close>

definition logToFirebase_001 ::
  "string \<Rightarrow> string \<Rightarrow> string \<Rightarrow> string \<Rightarrow> audit_env \<Rightarrow> effect list \<times> unit settled"
where
  "logToFirebase_001 uid status mode msg env =
     (let first = DbSet ''all_rfid_logs'' (uid @ ''-'' @ show_int (key_time env))
            [(''rfidTag'', JStr uid), (''timestamp'', JDate (stamp env)),
             (''status'', JStr status), (''mode'', JStr mode)]
      in case all_write env of
           Rejected e \<Rightarrow> ([first], Rejected e)
         | Fulfilled u \<Rightarrow>
             if status = ''accepted'' then
               ([first,
                 DbSet (logCollection mode) uid
                   [(''rfidTag'', JStr uid), (''timestamp'', JDate (stamp env)),
                    (''status'', JStr status), (''mode'', JStr mode), (''message'', JStr msg)]],
                second_write env)
             else ([first], Fulfilled ()))"

definition logDeniedUID_001 :: "string \<Rightarrow> string \<Rightarrow> audit_env \<Rightarrow> effect list \<times> unit settled" where
  "logDeniedUID_001 uid mode env =
     (DbSet ''Denied Uid's'' (uid @ ''-'' @ show_int (second_key_time env))
        [(''rfidTag'', JStr uid), (''timestamp'', JDate (second_stamp env)),
         (''location'', JStr mode)] #
      (case second_write env of
         Rejected e \<Rightarrow> []
       | Fulfilled u \<Rightarrow> [ConsoleLog (''Denied UID logged: '' @ uid @ '' at '' @ mode)]),
      second_write env)"

section \<open>Resolution of a dequeued tag\<close>

text \<open>
  The asynchronous part of \<open>processQueue\<close>: what runs from the call of
  \<open>fetchResidentDataWithRetry(uid)\<close> (default \<open>retries = 3\<close>) on. It takes the tag, the
  channel's name and port and the store's behaviour; it neither reads nor writes the
  queue or the cooldown cache, as in the source.

  First variant: the \<open>then\<close> callback and the \<open>catch\<close> callback of the promise chain.
\<close>

definition processQueue_async_000 ::
  "string \<Rightarrow> string \<Rightarrow> string \<Rightarrow> (nat \<Rightarrow> snapshot settled) \<Rightarrow> audit_env \<Rightarrow> effect list"
where
  "processQueue_async_000 uid mode port get env =
     (case fetchResidentDataWithRetry_000 uid 3 get of
        (gets, Fulfilled (Some residentData)) \<Rightarrow>
          gets @
          LogJson INFO (''Resident Data for UID '' @ uid @ '' on '' @ mode @ '': '') residentData #
          (let assignedStatus = map_of residentData ''assigned'' in
           if assignedStatus = Some (JBool True) then
             (let accessMessage =
                    (if str_includes mode ''Entry'' then ''Resident found Entry Granted''
                     else ''Resident found Exit Granted'')
              in [Log SUCCESS (''Resident with UID '' @ uid @ '' is assigned. '' @ accessMessage
                               @ '' on '' @ mode),
                  Respond port ''Resident Found\<newline>'']
                 @ logToFirebase_000 uid ''accepted'' mode accessMessage env)
           else if assignedStatus = Some (JBool False) then
             [Log INFO ''UID is found in database without a Resident Assigned. Please assign the UID.'',
              Respond port ''Resident Not Found - Assign Needed\<newline>'']
             @ logToFirebase_000 uid ''denied'' mode ''UID exists but is not assigned'' env
           else
             [Log INFO (''Resident with UID '' @ uid
                        @ '' does not have an 'assigned' field. Access denied on '' @ mode),
              Respond port ''Resident Not Found\<newline>'']
             @ logToFirebase_000 uid ''denied'' mode ''UID has no assigned field'' env)
      | (gets, Fulfilled None) \<Rightarrow>
          gets @
          [Log INFO (''ERROR: UID '' @ uid @ '' NOT FOUND IN DATABASE''),
           Respond port ''Resident Not Found\<newline>'']
          @ logToFirebase_000 uid ''denied'' mode ''UID not found in database'' env
      | (gets, Rejected e) \<Rightarrow>
          gets @
          [Log ERROR (''Error processing UID '' @ uid @ '' on '' @ mode @ '': '' @ e),
           Respond port ''Error\<newline>''])"

text \<open>
  Second variant: one \<open>try\<close> block of awaited steps. \<open>awaitAll\<close> runs the steps in order
  and stops at the first one that rejects, which is what the \<open>catch\<close> then receives.
  \<open>writeToSerialPort\<close> swallows its own errors, so awaiting it never rejects.
\<close>

fun awaitAll :: "(effect list \<times> unit settled) list \<Rightarrow> effect list \<times> unit settled" where
  "awaitAll [] = ([], Fulfilled ())"
| "awaitAll ((es, Fulfilled u) # steps) = (case awaitAll steps of (es', r) \<Rightarrow> (es @ es', r))"
| "awaitAll ((es, Rejected e) # steps) = (es, Rejected e)"

definition processQueue_async_001 ::
  "string \<Rightarrow> string \<Rightarrow> string \<Rightarrow> (nat \<Rightarrow> snapshot settled) \<Rightarrow> audit_env \<Rightarrow> effect list"
where
  "processQueue_async_001 uid mode port get env =
     (case
        (case fetchResidentDataWithRetry_001 uid 3 get of
           (gets, Rejected e) \<Rightarrow> (gets, Rejected e)
         | (gets, Fulfilled (Some residentData)) \<Rightarrow>
             (let assignedStatus = map_of residentData ''assigned'' in
              if assignedStatus = Some (JBool True) then
                (let accessMessage =
                       (if str_includes mode ''Entry'' then ''Resident Found Entry Granted''
                        else ''Resident Found Exit Granted'')
                 in awaitAll
                      [(gets, Fulfilled ()),
                       ([Respond port ''Resident Found\<newline>''], Fulfilled ()),
                       logToFirebase_001 uid ''accepted'' mode accessMessage env])
              else
                awaitAll
                  [(gets, Fulfilled ()),
                   ([Respond port ''Resident Not Found - Assign Needed\<newline>''], Fulfilled ()),
                   logToFirebase_001 uid ''denied'' mode ''UID exists but is not assigned'' env,
                   logDeniedUID_001 uid mode env])
         | (gets, Fulfilled None) \<Rightarrow>
             awaitAll
               [(gets, Fulfilled ()),
                ([Respond port ''Resident Not Found\<newline>''], Fulfilled ()),
                logToFirebase_001 uid ''denied'' mode ''UID not found in database'' env,
                logDeniedUID_001 uid mode env])
      of
        (es, Fulfilled u) \<Rightarrow> es
      | (es, Rejected e) \<Rightarrow>
          es @ [ConsoleError (''Error processing UID '' @ uid @ '' on '' @ mode @ '': '' @ e),
                Respond port ''Error\<newline>''])"

section \<open>Scan intake: handleReaderData\<close>

text \<open>
  \<open>handleReaderData data mode s port currentTime dequeueTime\<close>: one line from a reader.
  The two clock readings are the \<open>Date.now()\<close> of the guard and the one that
  \<open>processQueue\<close> takes. The result is the new channel state, the log lines, and the tag
  whose resolution was started, if any.
\<close>

definition handleReaderData_000 ::
  "string \<Rightarrow> string \<Rightarrow> channel_state \<Rightarrow> string \<Rightarrow> int \<Rightarrow> int
     \<Rightarrow> channel_state \<times> effect list \<times> string option"
where
  "handleReaderData_000 data mode s port currentTime dequeueTime =
     (if isPingResponse data then
        (s, [Log INFO (''Ping response received on '' @ mode @ ''. Ignoring...'')], None)
      else
        (let uid = trim data in
         if \<not> isValidUID uid then
           (s, [Log INFO (''Received data from '' @ mode @ '': '' @ uid),
                Log INFO (''Checked UID validity: '' @ uid @ '' - Valid: false''),
                Log ERROR (''Invalid UID received on '' @ mode @ '': '' @ uid)], None)
         else if admit cooldownTime_000 s uid currentTime then
           (case processQueue (push s uid) dequeueTime of
              (s', started) \<Rightarrow>
                (s', [Log INFO (''Received data from '' @ mode @ '': '' @ uid),
                      Log INFO (''Checked UID validity: '' @ uid @ '' - Valid: true''),
                      Log INFO (''UID '' @ uid @ '' added to '' @ mode @ '' queue'')], started))
         else
           (s, [Log INFO (''Received data from '' @ mode @ '': '' @ uid),
                Log INFO (''Checked UID validity: '' @ uid @ '' - Valid: true''),
                Log WARNING (''UID '' @ uid @ '' ignored on '' @ mode @ '' due to cooldown'')],
            None)))"

definition handleReaderData_001 ::
  "string \<Rightarrow> string \<Rightarrow> channel_state \<Rightarrow> string \<Rightarrow> int \<Rightarrow> int
     \<Rightarrow> channel_state \<times> effect list \<times> string option"
where
  "handleReaderData_001 data mode s port currentTime dequeueTime =
     (let uid = trim data in
      if \<not> isValidUID uid then
        (s, [ConsoleError (''Invalid UID received on '' @ mode @ '': '' @ uid)], None)
      else if admit cooldownTime_001 s uid currentTime then
        (case processQueue (push s uid) dequeueTime of (s', started) \<Rightarrow> (s', [], started))
      else (s, [], None))"

section \<open>The enrollment reader\<close>

text \<open>
  The \<open>data\<close> handler of \<open>parserAssign\<close>. \<open>got\<close> is how the read of the resident
  document settles and \<open>created\<close> how the write of a new one does. The handler has no
  queue, no cooldown cache and no audit call. The first definition is the promise chain
  of the first variant (and of \<open>serverfixing.js\<close>), the second the \<open>try\<close> block of the
  second variant.
\<close>

definition parserAssign_onData_000 ::
  "string \<Rightarrow> snapshot settled \<Rightarrow> unit settled \<Rightarrow> effect list"
where
  "parserAssign_onData_000 data got created =
     (let uid = trim data in
      if \<not> isValidUID uid then
        [Log INFO (''Received data from Assign Reader: '' @ uid),
         Log INFO (''Checked UID validity: '' @ uid @ '' - Valid: false''),
         Log ERROR (''Invalid UID received on Assign: '' @ uid)]
      else
        [Log INFO (''Received data from Assign Reader: '' @ uid),
         Log INFO (''Checked UID validity: '' @ uid @ '' - Valid: true''),
         DbGet ''residents'' uid] @
        (case got of
           Fulfilled (Document residentData) \<Rightarrow>
             if map_of residentData ''assigned'' = Some (JBool False) then
               [Log INFO (''RFID UID '' @ uid
                          @ '' present in database but not assigned. Please assign it.''),
                Respond ''portAssign'' ''UID Not Assigned\<newline>'']
             else
               [Log SUCCESS (''Resident already assigned for UID: '' @ uid),
                Respond ''portAssign'' ''Resident Found\<newline>'']
         | Fulfilled NoDocument \<Rightarrow>
             DbSet ''residents'' uid [(''assigned'', JBool False)] #
             (case created of
                Fulfilled u \<Rightarrow>
                  [Log INFO (''New resident document created for UID: '' @ uid
                             @ '' with assigned: false''),
                   Respond ''portAssign'' ''New Resident Created\<newline>'']
              | Rejected e \<Rightarrow>
                  [Log ERROR (''Error creating new resident: '' @ e),
                   Respond ''portAssign'' ''Error\<newline>''])
         | Rejected e \<Rightarrow>
             [Log ERROR (''Error on Assign: '' @ e), Respond ''portAssign'' ''Error\<newline>'']))"

definition parserAssign_onData_001 ::
  "string \<Rightarrow> snapshot settled \<Rightarrow> unit settled \<Rightarrow> effect list"
where
  "parserAssign_onData_001 data got created =
     (let uid = trim data in
      if \<not> isValidUID uid then [ConsoleError (''Invalid UID received on Assign: '' @ uid)]
      else
        (case
           (case got of
              Rejected e \<Rightarrow> ([DbGet ''residents'' uid], Rejected e)
            | Fulfilled (Document residentData) \<Rightarrow>
                if map_of residentData ''assigned'' = Some (JBool False) then
                  awaitAll
                    [([DbGet ''residents'' uid], Fulfilled ()),
                     ([Respond ''portAssign'' ''UID Not Assigned\<newline>''], Fulfilled ())]
                else
                  awaitAll
                    [([DbGet ''residents'' uid], Fulfilled ()),
                     ([Respond ''portAssign'' ''Resident Found\<newline>''], Fulfilled ())]
            | Fulfilled NoDocument \<Rightarrow>
                awaitAll
                  [([DbGet ''residents'' uid], Fulfilled ()),
                   ([DbSet ''residents'' uid [(''assigned'', JBool False)]], created),
                   ([Respond ''portAssign'' ''New Resident Created\<newline>''], Fulfilled ())])
         of
           (es, Fulfilled u) \<Rightarrow> es
         | (es, Rejected e) \<Rightarrow>
             es @ [ConsoleError (''Error processing Assign UID: '' @ e),
                   Respond ''portAssign'' ''Error\<newline>'']))"

section \<open>A channel over time\<close>

text \<open>
  The handlers run to completion one after the other on the event loop; what is open
  between two of them is the set of resolutions whose store calls have not settled yet.
  A channel is its state, the tags of the resolutions in flight (in dequeue order) and
  the effects so far. An event is a line from the reader, or the settling of the
  resolution at a position of the in-flight list, with the store's behaviour for it;
  the effects of a resolution are recorded when it settles.
\<close>

record channel =
  chan :: channel_state
  inflight :: "string list"
  emitted :: "effect list"

datatype event =
    is_Line: Line string int int
  | Settle nat "nat \<Rightarrow> snapshot settled" audit_env

definition initial :: channel where
  "initial = \<lparr>chan = \<lparr>queue = [], cooldownCache = Map.empty\<rparr>, inflight = [], emitted = []\<rparr>"

definition started_list :: "string option \<Rightarrow> string list" where
  "started_list started = (case started of None \<Rightarrow> [] | Some uid \<Rightarrow> [uid])"

fun step_000 :: "string \<Rightarrow> string \<Rightarrow> channel \<Rightarrow> event \<Rightarrow> channel" where
  "step_000 mode port c (Line data currentTime dequeueTime) =
     (case handleReaderData_000 data mode (chan c) port currentTime dequeueTime of
        (s', es, started) \<Rightarrow>
          c\<lparr>chan := s', inflight := inflight c @ started_list started,
            emitted := emitted c @ es\<rparr>)"
| "step_000 mode port c (Settle i get env) =
     (if i < length (inflight c) then
        c\<lparr>inflight := take i (inflight c) @ drop (Suc i) (inflight c),
          emitted := emitted c @ processQueue_async_000 (inflight c ! i) mode port get env\<rparr>
      else c)"

fun step_001 :: "string \<Rightarrow> string \<Rightarrow> channel \<Rightarrow> event \<Rightarrow> channel" where
  "step_001 mode port c (Line data currentTime dequeueTime) =
     (case handleReaderData_001 data mode (chan c) port currentTime dequeueTime of
        (s', es, started) \<Rightarrow>
          c\<lparr>chan := s', inflight := inflight c @ started_list started,
            emitted := emitted c @ es\<rparr>)"
| "step_001 mode port c (Settle i get env) =
     (if i < length (inflight c) then
        c\<lparr>inflight := take i (inflight c) @ drop (Suc i) (inflight c),
          emitted := emitted c @ processQueue_async_001 (inflight c ! i) mode port get env\<rparr>
      else c)"

text \<open>
  \<open>within_window W uid d ev\<close>: the event is no admission of \<open>uid\<close> after the window
  \<open>W\<close> that started at \<open>d\<close>: it is the settling of a resolution, a line that carries
  another tag, or a line read at a time \<open>t\<close> with \<open>t - d < W\<close>.
\<close>

definition within_window :: "int \<Rightarrow> string \<Rightarrow> int \<Rightarrow> event \<Rightarrow> bool" where
  "within_window W uid d ev =
     (case ev of
        Line data currentTime dequeueTime \<Rightarrow> trim data \<noteq> uid \<or> currentTime - d < W
      | Settle i get env \<Rightarrow> True)"

definition run_000 :: "string \<Rightarrow> string \<Rightarrow> event list \<Rightarrow> channel \<Rightarrow> channel" where
  "run_000 mode port evs c = foldl (step_000 mode port) c evs"

definition run_001 :: "string \<Rightarrow> string \<Rightarrow> event list \<Rightarrow> channel \<Rightarrow> channel" where
  "run_001 mode port evs c = foldl (step_001 mode port) c evs"

text \<open>
  An audit environment for concrete runs: every clock reading is \<open>t\<close>, the write to
  \<open>all_rfid_logs\<close> settles as \<open>w1\<close> and the second write as \<open>w2\<close>.
\<close>

definition audit_at :: "int \<Rightarrow> unit settled \<Rightarrow> unit settled \<Rightarrow> audit_env" where
  "audit_at t w1 w2 =
     \<lparr>stamp = t, key_time = t, all_write = w1,
      second_stamp = t, second_key_time = t, second_write = w2\<rparr>"

section \<open>Properties\<close>

subsection \<open>Store scripts\<close>

lemma script_simps:
  "script [] r k = r"
  "script (x # xs) r 0 = x"
  "script (x # xs) r (Suc k) = script xs r k"
  by (simp_all add: script_def)

lemma all_less_3: "(\<forall>k<(3::nat). P k) = (P 0 \<and> P (Suc 0) \<and> P (Suc (Suc 0)))"
  by (auto simp: less_Suc_eq numeral_3_eq_3)

lemma all_less_2: "(\<forall>k<(2::nat). P k) = (P 0 \<and> P (Suc 0))"
  by (auto simp: less_Suc_eq numeral_2_eq_2)

subsection \<open>The retry budget\<close>

lemma tryFetching_000_exhausted:
  "attempt \<le> retries \<Longrightarrow>
   \<forall>k. attempt \<le> k \<and> k \<le> retries \<longrightarrow> is_Rejected (get k) \<Longrightarrow>
   tryFetching_000 uid retries get attempt =
     (replicate (retries + 1 - attempt) (DbGet ''residents'' uid),
      Rejected (''Failed to fetch data for UID '' @ uid @ '': '' @ message (get retries)))"
proof (induction "retries - attempt" arbitrary: attempt)
  case 0
  then have eq: "attempt = retries" by simp
  from 0 eq obtain msg where "get retries = Rejected msg"
    by (cases "get retries") auto
  with eq show ?case
    by (simp add: tryFetching_000.simps [of uid retries get retries])
next
  case (Suc d)
  then have lt: "attempt < retries" by simp
  from Suc.prems obtain msg where rej: "get attempt = Rejected msg"
    by (cases "get attempt") auto
  have ih: "tryFetching_000 uid retries get (attempt + 1) =
     (replicate (retries + 1 - (attempt + 1)) (DbGet ''residents'' uid),
      Rejected (''Failed to fetch data for UID '' @ uid @ '': '' @ message (get retries)))"
    using Suc.hyps Suc.prems lt by (intro Suc.hyps(1)) auto
  have rep: "replicate (retries + 1 - attempt) (DbGet ''residents'' uid) =
     DbGet ''residents'' uid # replicate (retries + 1 - (attempt + 1)) (DbGet ''residents'' uid)"
    using lt by (simp add: Suc_diff_le flip: replicate_Suc)
  show ?case
    using lt rej ih rep by (simp add: tryFetching_000.simps [of uid retries get attempt])
qed

lemma tryFetching_000_success:
  "attempt \<le> j \<Longrightarrow> j \<le> retries \<Longrightarrow>
   \<forall>k. attempt \<le> k \<and> k < j \<longrightarrow> is_Rejected (get k) \<Longrightarrow>
   get j = Fulfilled docSnapshot \<Longrightarrow>
   tryFetching_000 uid retries get attempt =
     (replicate (j + 1 - attempt) (DbGet ''residents'' uid), Fulfilled (snapshot_data docSnapshot))"
proof (induction "j - attempt" arbitrary: attempt)
  case 0
  then have "attempt = j" by simp
  with 0 show ?case
    by (simp add: tryFetching_000.simps [of uid retries get j])
next
  case (Suc d)
  then have lt: "attempt < j" by simp
  from Suc.prems lt obtain msg where rej: "get attempt = Rejected msg"
    by (cases "get attempt") auto
  have ih: "tryFetching_000 uid retries get (attempt + 1) =
     (replicate (j + 1 - (attempt + 1)) (DbGet ''residents'' uid), Fulfilled (snapshot_data docSnapshot))"
    using Suc.hyps Suc.prems lt by (intro Suc.hyps(1)) auto
  have rep: "replicate (j + 1 - attempt) (DbGet ''residents'' uid) =
     DbGet ''residents'' uid # replicate (j + 1 - (attempt + 1)) (DbGet ''residents'' uid)"
    using lt by (simp add: Suc_diff_le flip: replicate_Suc)
  show ?case
    using lt rej ih rep Suc.prems
    by (simp add: tryFetching_000.simps [of uid retries get attempt])
qed

lemma fetchLoop_001_exhausted:
  "attempt < retries \<Longrightarrow>
   \<forall>k. attempt \<le> k \<and> k < retries \<longrightarrow> is_Rejected (get k) \<Longrightarrow>
   fetchLoop_001 uid retries get attempt =
     (replicate (retries - attempt) (DbGet ''residents'' uid), Rejected (message (get (retries - 1))))"
proof (induction "retries - attempt" arbitrary: attempt)
  case 0
  then show ?case by simp
next
  case (Suc d)
  from Suc.prems obtain msg where rej: "get attempt = Rejected msg"
    by (cases "get attempt") auto
  show ?case
  proof (cases "attempt + 1 = retries")
    case True
    then have "retries - 1 = attempt" "retries - attempt = 1" by simp_all
    with True rej Suc.prems show ?thesis
      by (simp add: fetchLoop_001.simps [of uid retries get attempt])
  next
    case False
    with Suc.prems have lt: "attempt + 1 < retries" by simp
    have ih: "fetchLoop_001 uid retries get (attempt + 1) =
       (replicate (retries - (attempt + 1)) (DbGet ''residents'' uid), Rejected (message (get (retries - 1))))"
      using Suc.hyps Suc.prems lt by (intro Suc.hyps(1)) auto
    have rep: "replicate (retries - attempt) (DbGet ''residents'' uid) =
       DbGet ''residents'' uid # replicate (retries - (attempt + 1)) (DbGet ''residents'' uid)"
      using lt by (simp add: Suc_diff_Suc flip: replicate_Suc)
    show ?thesis
      using False rej ih rep Suc.prems
      by (simp add: fetchLoop_001.simps [of uid retries get attempt])
  qed
qed

lemma fetchLoop_001_success:
  "attempt \<le> j \<Longrightarrow> j < retries \<Longrightarrow>
   \<forall>k. attempt \<le> k \<and> k < j \<longrightarrow> is_Rejected (get k) \<Longrightarrow>
   get j = Fulfilled docSnapshot \<Longrightarrow>
   fetchLoop_001 uid retries get attempt =
     (replicate (j + 1 - attempt) (DbGet ''residents'' uid), Fulfilled (snapshot_data docSnapshot))"
proof (induction "j - attempt" arbitrary: attempt)
  case 0
  then have "attempt = j" by simp
  with 0 show ?case
    by (simp add: fetchLoop_001.simps [of uid retries get j])
next
  case (Suc d)
  then have lt: "attempt < j" by simp
  from Suc.prems lt obtain msg where rej: "get attempt = Rejected msg"
    by (cases "get attempt") auto
  have ne: "attempt + 1 \<noteq> retries" using lt Suc.prems by simp
  have ih: "fetchLoop_001 uid retries get (attempt + 1) =
     (replicate (j + 1 - (attempt + 1)) (DbGet ''residents'' uid), Fulfilled (snapshot_data docSnapshot))"
    using Suc.hyps Suc.prems lt by (intro Suc.hyps(1)) auto
  have rep: "replicate (j + 1 - attempt) (DbGet ''residents'' uid) =
     DbGet ''residents'' uid # replicate (j + 1 - (attempt + 1)) (DbGet ''residents'' uid)"
    using lt by (simp add: Suc_diff_le flip: replicate_Suc)
  show ?case
    using lt rej ih rep ne Suc.prems
    by (simp add: fetchLoop_001.simps [of uid retries get attempt])
qed

text \<open>
  Claim C6, as the code has it. Neither variant waits between attempts (no timer is
  involved), and both stop at a fixed bound, but the bound differs:
  \<^item> first variant: when every read is rejected, the error surfaces on read number
    \<open>retries + 1\<close> (the initial read and \<open>retries\<close> retries) and no further read is made;
    a read that is fulfilled at any position \<open>j \<le> retries\<close> ends the resolution with that
    document (or the falsy result for a missing one) after \<open>j + 1\<close> reads;
  \<^item> second variant: \<open>retries\<close> bounds the total number of reads, so the error surfaces on
    read number \<open>retries\<close> and a fulfilled read counts only at a position \<open>j < retries\<close>.
\<close>

theorem fetch_retry_budget:
  "((\<forall>k\<le>retries. is_Rejected (get k)) \<longrightarrow>
      fetchResidentDataWithRetry_000 uid retries get =
        (replicate (retries + 1) (DbGet ''residents'' uid),
         Rejected (''Failed to fetch data for UID '' @ uid @ '': '' @ message (get retries))))
   \<and> (j \<le> retries \<and> (\<forall>k<j. is_Rejected (get k)) \<and> get j = Fulfilled docSnapshot \<longrightarrow>
      fetchResidentDataWithRetry_000 uid retries get =
        (replicate (j + 1) (DbGet ''residents'' uid), Fulfilled (snapshot_data docSnapshot)))
   \<and> (0 < retries \<and> (\<forall>k<retries. is_Rejected (get k)) \<longrightarrow>
      fetchResidentDataWithRetry_001 uid retries get =
        (replicate retries (DbGet ''residents'' uid), Rejected (message (get (retries - 1)))))
   \<and> (j < retries \<and> (\<forall>k<j. is_Rejected (get k)) \<and> get j = Fulfilled docSnapshot \<longrightarrow>
      fetchResidentDataWithRetry_001 uid retries get =
        (replicate (j + 1) (DbGet ''residents'' uid), Fulfilled (snapshot_data docSnapshot)))"
proof (intro conjI impI)
  assume "\<forall>k\<le>retries. is_Rejected (get k)"
  then show "fetchResidentDataWithRetry_000 uid retries get =
        (replicate (retries + 1) (DbGet ''residents'' uid),
         Rejected (''Failed to fetch data for UID '' @ uid @ '': '' @ message (get retries)))"
    using tryFetching_000_exhausted [of 0 retries get uid]
    by (simp add: fetchResidentDataWithRetry_000_def)
next
  assume "j \<le> retries \<and> (\<forall>k<j. is_Rejected (get k)) \<and> get j = Fulfilled docSnapshot"
  then show "fetchResidentDataWithRetry_000 uid retries get =
        (replicate (j + 1) (DbGet ''residents'' uid), Fulfilled (snapshot_data docSnapshot))"
    using tryFetching_000_success [of 0 j retries get docSnapshot uid]
    by (simp add: fetchResidentDataWithRetry_000_def)
next
  assume "0 < retries \<and> (\<forall>k<retries. is_Rejected (get k))"
  then show "fetchResidentDataWithRetry_001 uid retries get =
        (replicate retries (DbGet ''residents'' uid), Rejected (message (get (retries - 1))))"
    using fetchLoop_001_exhausted [of 0 retries get uid]
    by (simp add: fetchResidentDataWithRetry_001_def)
next
  assume "j < retries \<and> (\<forall>k<j. is_Rejected (get k)) \<and> get j = Fulfilled docSnapshot"
  then show "fetchResidentDataWithRetry_001 uid retries get =
        (replicate (j + 1) (DbGet ''residents'' uid), Fulfilled (snapshot_data docSnapshot))"
    using fetchLoop_001_success [of 0 j retries get docSnapshot uid]
    by (simp add: fetchResidentDataWithRetry_001_def)
qed

theorem fetch_retry_budget_witness:
  "fetchResidentDataWithRetry_000 ''1A2B3C4D'' 3 (script [] (Rejected ''unavailable'')) =
     (replicate 4 (DbGet ''residents'' ''1A2B3C4D''),
      Rejected ''Failed to fetch data for UID 1A2B3C4D: unavailable'')
   \<and> fetchResidentDataWithRetry_000 ''1A2B3C4D'' 3
       (script [Rejected ''unavailable'', Rejected ''unavailable'', Rejected ''unavailable'']
          (Fulfilled (Document [(''assigned'', JBool True)]))) =
     (replicate 4 (DbGet ''residents'' ''1A2B3C4D''), Fulfilled (Some [(''assigned'', JBool True)]))
   \<and> fetchResidentDataWithRetry_001 ''1A2B3C4D'' 3 (script [] (Rejected ''unavailable'')) =
     (replicate 3 (DbGet ''residents'' ''1A2B3C4D''), Rejected ''unavailable'')
   \<and> fetchResidentDataWithRetry_001 ''1A2B3C4D'' 3
       (script [Rejected ''unavailable'', Rejected ''unavailable''] (Fulfilled NoDocument)) =
     (replicate 3 (DbGet ''residents'' ''1A2B3C4D''), Fulfilled None)"
proof -
  let ?fail = "Rejected ''unavailable'' :: snapshot settled"
  let ?doc = "Document [(''assigned'', JBool True)]"
  have a: "\<forall>k\<le>3. is_Rejected (script [] ?fail k)"
    by (simp add: script_def)
  have b: "(3::nat) \<le> 3 \<and> (\<forall>k<3. is_Rejected (script [?fail, ?fail, ?fail] (Fulfilled ?doc) k))
      \<and> script [?fail, ?fail, ?fail] (Fulfilled ?doc) 3 = Fulfilled ?doc"
    by (simp add: all_less_3 script_simps) (simp add: script_def)
  have c: "(0::nat) < 3 \<and> (\<forall>k<3. is_Rejected (script [] ?fail k))"
    by (simp add: script_def)
  have d: "(2::nat) < 3 \<and> (\<forall>k<2. is_Rejected (script [?fail, ?fail] (Fulfilled NoDocument) k))
      \<and> script [?fail, ?fail] (Fulfilled NoDocument) 2 = Fulfilled NoDocument"
    by (simp add: all_less_2 script_simps) (simp add: script_def)
  show ?thesis
    using fetch_retry_budget [of 3 "script [] ?fail" "''1A2B3C4D''" 0 NoDocument] a c
      fetch_retry_budget [of 3 "script [?fail, ?fail, ?fail] (Fulfilled ?doc)" "''1A2B3C4D''" 3 ?doc] b
      fetch_retry_budget [of 3 "script [?fail, ?fail] (Fulfilled NoDocument)" "''1A2B3C4D''" 2 NoDocument] d
    by (simp add: script_def snapshot_data_def)
qed

text \<open>
  Claim C6 as stated fails on the second variant: with the default \<open>retries = 3\<close> and three
  rejected reads the error surfaces after the third read, although the fourth read (the
  third retry) would have been fulfilled.
\<close>

theorem fetch_retry_counterexample:
  "fetchResidentDataWithRetry_001 ''1A2B3C4D'' 3
     (script [Rejected ''unavailable'', Rejected ''unavailable'', Rejected ''unavailable'']
        (Fulfilled (Document [(''assigned'', JBool True)]))) =
   ([DbGet ''residents'' ''1A2B3C4D'', DbGet ''residents'' ''1A2B3C4D'',
     DbGet ''residents'' ''1A2B3C4D''], Rejected ''unavailable'')"
  by (simp add: fetchResidentDataWithRetry_001_def fetchLoop_001.simps script_def)

subsection \<open>Reading an effect list\<close>

lemma responses_simps [simp]:
  "responses [] = []"
  "responses (Respond p m # es) = m # responses es"
  "responses (Log l t # es) = responses es"
  "responses (LogJson l t d # es) = responses es"
  "responses (ConsoleError t # es) = responses es"
  "responses (ConsoleLog t # es) = responses es"
  "responses (DbGet c k # es) = responses es"
  "responses (DbSet c k d # es) = responses es"
  "responses (es @ es') = responses es @ responses es'"
  by (simp_all add: responses_def)

lemma writes_simps [simp]:
  "writes [] = []"
  "writes (Respond p m # es) = writes es"
  "writes (Log l t # es) = writes es"
  "writes (LogJson l t d # es) = writes es"
  "writes (ConsoleError t # es) = writes es"
  "writes (ConsoleLog t # es) = writes es"
  "writes (DbGet c k # es) = writes es"
  "writes (DbSet c k d # es) = (c, k) # writes es"
  "writes (es @ es') = writes es @ writes es'"
  by (simp_all add: writes_def)

lemma reads_simps [simp]:
  "reads [] = []"
  "reads (Respond p m # es) = reads es"
  "reads (Log l t # es) = reads es"
  "reads (LogJson l t d # es) = reads es"
  "reads (ConsoleError t # es) = reads es"
  "reads (ConsoleLog t # es) = reads es"
  "reads (DbGet c k # es) = (c, k) # reads es"
  "reads (DbSet c k d # es) = reads es"
  "reads (es @ es') = reads es @ reads es'"
  by (simp_all add: reads_def)

lemma errors_logged_simps [simp]:
  "errors_logged [] = []"
  "errors_logged (Respond p m # es) = errors_logged es"
  "errors_logged (Log l t # es) = (if l = ERROR then t # errors_logged es else errors_logged es)"
  "errors_logged (LogJson l t d # es) = errors_logged es"
  "errors_logged (ConsoleError t # es) = t # errors_logged es"
  "errors_logged (ConsoleLog t # es) = errors_logged es"
  "errors_logged (DbGet c k # es) = errors_logged es"
  "errors_logged (DbSet c k d # es) = errors_logged es"
  "errors_logged (es @ es') = errors_logged es @ errors_logged es'"
  by (simp_all add: errors_logged_def split: level.splits)

lemma audit_statuses_simps [simp]:
  "audit_statuses [] = []"
  "audit_statuses (Respond p m # es) = audit_statuses es"
  "audit_statuses (Log l t # es) = audit_statuses es"
  "audit_statuses (LogJson l t d # es) = audit_statuses es"
  "audit_statuses (ConsoleError t # es) = audit_statuses es"
  "audit_statuses (ConsoleLog t # es) = audit_statuses es"
  "audit_statuses (DbGet c k # es) = audit_statuses es"
  "audit_statuses (DbSet c k d # es) =
     (if c = ''all_rfid_logs'' then map_of d ''status'' # audit_statuses es else audit_statuses es)"
  "audit_statuses (es @ es') = audit_statuses es @ audit_statuses es'"
  by (simp_all add: audit_statuses_def)

lemma audit_messages_simps [simp]:
  "audit_messages [] = []"
  "audit_messages (Respond p m # es) = audit_messages es"
  "audit_messages (Log l t # es) = audit_messages es"
  "audit_messages (LogJson l t d # es) = audit_messages es"
  "audit_messages (ConsoleError t # es) = audit_messages es"
  "audit_messages (ConsoleLog t # es) = audit_messages es"
  "audit_messages (DbGet c k # es) = audit_messages es"
  "audit_messages (DbSet c k d # es) =
     (case map_of d ''message'' of None \<Rightarrow> [] | Some m \<Rightarrow> [m]) @ audit_messages es"
  "audit_messages (es @ es') = audit_messages es @ audit_messages es'"
  by (simp_all add: audit_messages_def)

subsection \<open>The resolver only reads\<close>

lemma tryFetching_000_only_reads:
  "responses (fst (tryFetching_000 uid retries get attempt)) = [] \<and>
   writes (fst (tryFetching_000 uid retries get attempt)) = [] \<and>
   audit_statuses (fst (tryFetching_000 uid retries get attempt)) = [] \<and>
   audit_messages (fst (tryFetching_000 uid retries get attempt)) = [] \<and>
   errors_logged (fst (tryFetching_000 uid retries get attempt)) = []"
proof (induction uid retries get attempt rule: tryFetching_000.induct)
  case (1 uid retries get attempt)
  show ?case
  proof (cases "get attempt")
    case (Fulfilled docSnapshot)
    then show ?thesis
      by (simp add: tryFetching_000.simps [of uid retries get attempt])
  next
    case (Rejected msg)
    show ?thesis
    proof (cases "attempt < retries")
      case True
      with Rejected "1.IH" [of msg] show ?thesis
        by (auto simp add: tryFetching_000.simps [of uid retries get attempt] split: prod.splits)
    next
      case False
      with Rejected show ?thesis
        by (simp add: tryFetching_000.simps [of uid retries get attempt])
    qed
  qed
qed

lemma fetchLoop_001_only_reads:
  "responses (fst (fetchLoop_001 uid retries get attempt)) = [] \<and>
   writes (fst (fetchLoop_001 uid retries get attempt)) = [] \<and>
   audit_statuses (fst (fetchLoop_001 uid retries get attempt)) = [] \<and>
   audit_messages (fst (fetchLoop_001 uid retries get attempt)) = [] \<and>
   errors_logged (fst (fetchLoop_001 uid retries get attempt)) = []"
proof (induction uid retries get attempt rule: fetchLoop_001.induct)
  case (1 uid retries get attempt)
  show ?case
  proof (cases "attempt < retries")
    case False
    then show ?thesis
      by (simp add: fetchLoop_001.simps [of uid retries get attempt])
  next
    case True
    show ?thesis
    proof (cases "get attempt")
      case (Fulfilled docSnapshot)
      with True show ?thesis
        by (simp add: fetchLoop_001.simps [of uid retries get attempt])
    next
      case (Rejected msg)
      show ?thesis
      proof (cases "attempt + 1 = retries")
        case stop: True
        with True Rejected show ?thesis
          by (simp add: fetchLoop_001.simps [of uid retries get attempt])
      next
        case go: False
        with True Rejected "1.IH" [of msg] show ?thesis
          by (auto simp add: fetchLoop_001.simps [of uid retries get attempt] split: prod.splits)
      qed
    qed
  qed
qed

lemma fetch_000_only_reads:
  "fetchResidentDataWithRetry_000 uid retries get = (gets, r) \<Longrightarrow>
   responses gets = [] \<and> writes gets = [] \<and> audit_statuses gets = [] \<and>
   audit_messages gets = [] \<and> errors_logged gets = []"
  using tryFetching_000_only_reads [of uid retries get 0]
  by (simp add: fetchResidentDataWithRetry_000_def)

lemma fetch_001_only_reads:
  "fetchResidentDataWithRetry_001 uid retries get = (gets, r) \<Longrightarrow>
   responses gets = [] \<and> writes gets = [] \<and> audit_statuses gets = [] \<and>
   audit_messages gets = [] \<and> errors_logged gets = []"
  using fetchLoop_001_only_reads [of uid retries get 0]
  by (simp add: fetchResidentDataWithRetry_001_def)


subsection \<open>The decision table\<close>

text \<open>
  Claim C1, as the code has it. With \<open>r\<close> the result of the resolver:
  \<^item> first variant: a missing document is answered \<open>Resident Not Found\<close> (denied, reason
    "UID not found in database"); \<open>assigned = false\<close> is answered
    \<open>Resident Not Found - Assign Needed\<close> (denied, "UID exists but is not assigned"); a
    document without the field is answered \<open>Resident Not Found\<close> (denied, "UID has no
    assigned field"); \<open>assigned = true\<close> is answered \<open>Resident Found\<close> (accepted); a
    rejected resolver is answered \<open>Error\<close> and nothing is audited. These are all the
    responses of the resolution;
  \<^item> second variant: the same rows, except that every document whose \<open>assigned\<close> is not
    \<open>true\<close> (false or absent) is answered \<open>Resident Not Found - Assign Needed\<close>; the
    rows give the first response written.
\<close>

theorem decision_table:
  "(fetchResidentDataWithRetry_000 uid 3 get = (gets, Fulfilled None) \<longrightarrow>
      responses (processQueue_async_000 uid mode port get env) = [''Resident Not Found\<newline>''] \<and>
      audit_statuses (processQueue_async_000 uid mode port get env) = [Some (JStr ''denied'')] \<and>
      (all_write env = Fulfilled () \<longrightarrow>
         audit_messages (processQueue_async_000 uid mode port get env) =
           [JStr ''UID not found in database'']))
   \<and> (fetchResidentDataWithRetry_000 uid 3 get = (gets, Fulfilled (Some residentData)) \<and>
        map_of residentData ''assigned'' = Some (JBool False) \<longrightarrow>
      responses (processQueue_async_000 uid mode port get env) =
        [''Resident Not Found - Assign Needed\<newline>''] \<and>
      audit_statuses (processQueue_async_000 uid mode port get env) = [Some (JStr ''denied'')] \<and>
      (all_write env = Fulfilled () \<longrightarrow>
         audit_messages (processQueue_async_000 uid mode port get env) =
           [JStr ''UID exists but is not assigned'']))
   \<and> (fetchResidentDataWithRetry_000 uid 3 get = (gets, Fulfilled (Some residentData)) \<and>
        map_of residentData ''assigned'' = None \<longrightarrow>
      responses (processQueue_async_000 uid mode port get env) = [''Resident Not Found\<newline>''] \<and>
      audit_statuses (processQueue_async_000 uid mode port get env) = [Some (JStr ''denied'')] \<and>
      (all_write env = Fulfilled () \<longrightarrow>
         audit_messages (processQueue_async_000 uid mode port get env) =
           [JStr ''UID has no assigned field'']))
   \<and> (fetchResidentDataWithRetry_000 uid 3 get = (gets, Fulfilled (Some residentData)) \<and>
        map_of residentData ''assigned'' = Some (JBool True) \<longrightarrow>
      responses (processQueue_async_000 uid mode port get env) = [''Resident Found\<newline>''] \<and>
      audit_statuses (processQueue_async_000 uid mode port get env) = [Some (JStr ''accepted'')])
   \<and> (fetchResidentDataWithRetry_000 uid 3 get = (gets, Rejected e) \<longrightarrow>
      responses (processQueue_async_000 uid mode port get env) = [''Error\<newline>''] \<and>
      audit_statuses (processQueue_async_000 uid mode port get env) = [])
   \<and> (fetchResidentDataWithRetry_001 uid 3 get = (gets, Fulfilled None) \<longrightarrow>
      take 1 (responses (processQueue_async_001 uid mode port get env)) =
        [''Resident Not Found\<newline>''] \<and>
      audit_statuses (processQueue_async_001 uid mode port get env) = [Some (JStr ''denied'')])
   \<and> (fetchResidentDataWithRetry_001 uid 3 get = (gets, Fulfilled (Some residentData)) \<and>
        map_of residentData ''assigned'' \<noteq> Some (JBool True) \<longrightarrow>
      take 1 (responses (processQueue_async_001 uid mode port get env)) =
        [''Resident Not Found - Assign Needed\<newline>''] \<and>
      audit_statuses (processQueue_async_001 uid mode port get env) = [Some (JStr ''denied'')])
   \<and> (fetchResidentDataWithRetry_001 uid 3 get = (gets, Fulfilled (Some residentData)) \<and>
        map_of residentData ''assigned'' = Some (JBool True) \<longrightarrow>
      take 1 (responses (processQueue_async_001 uid mode port get env)) =
        [''Resident Found\<newline>''] \<and>
      audit_statuses (processQueue_async_001 uid mode port get env) = [Some (JStr ''accepted'')])
   \<and> (fetchResidentDataWithRetry_001 uid 3 get = (gets, Rejected e) \<longrightarrow>
      responses (processQueue_async_001 uid mode port get env) = [''Error\<newline>''] \<and>
      audit_statuses (processQueue_async_001 uid mode port get env) = [])"
proof -
  have a: "fetchResidentDataWithRetry_000 uid 3 get = (gets, r) \<Longrightarrow>
      responses gets = [] \<and> audit_statuses gets = [] \<and> audit_messages gets = []" for r
    using fetch_000_only_reads [of uid 3 get gets r] by simp
  have b: "fetchResidentDataWithRetry_001 uid 3 get = (gets, r) \<Longrightarrow>
      responses gets = [] \<and> audit_statuses gets = [] \<and> audit_messages gets = []" for r
    using fetch_001_only_reads [of uid 3 get gets r] by simp
  have p0: "fetchResidentDataWithRetry_000 uid 3 get = (gets, Fulfilled None) \<longrightarrow>
      responses (processQueue_async_000 uid mode port get env) = [''Resident Not Found\<newline>''] \<and>
      audit_statuses (processQueue_async_000 uid mode port get env) = [Some (JStr ''denied'')] \<and>
      (all_write env = Fulfilled () \<longrightarrow>
         audit_messages (processQueue_async_000 uid mode port get env) =
           [JStr ''UID not found in database''])"
    using a [of "Fulfilled None"]
    by (auto simp: processQueue_async_000_def logToFirebase_000_def split: settled.splits)
  have p1: "fetchResidentDataWithRetry_000 uid 3 get = (gets, Fulfilled (Some residentData)) \<and>
        map_of residentData ''assigned'' = Some (JBool False) \<longrightarrow>
      responses (processQueue_async_000 uid mode port get env) =
        [''Resident Not Found - Assign Needed\<newline>''] \<and>
      audit_statuses (processQueue_async_000 uid mode port get env) = [Some (JStr ''denied'')] \<and>
      (all_write env = Fulfilled () \<longrightarrow>
         audit_messages (processQueue_async_000 uid mode port get env) =
           [JStr ''UID exists but is not assigned''])"
    using a [of "Fulfilled (Some residentData)"]
    by (auto simp: processQueue_async_000_def logToFirebase_000_def split: settled.splits)
  have p2: "fetchResidentDataWithRetry_000 uid 3 get = (gets, Fulfilled (Some residentData)) \<and>
        map_of residentData ''assigned'' = None \<longrightarrow>
      responses (processQueue_async_000 uid mode port get env) = [''Resident Not Found\<newline>''] \<and>
      audit_statuses (processQueue_async_000 uid mode port get env) = [Some (JStr ''denied'')] \<and>
      (all_write env = Fulfilled () \<longrightarrow>
         audit_messages (processQueue_async_000 uid mode port get env) =
           [JStr ''UID has no assigned field''])"
    using a [of "Fulfilled (Some residentData)"]
    by (auto simp: processQueue_async_000_def logToFirebase_000_def split: settled.splits)
  have p3: "fetchResidentDataWithRetry_000 uid 3 get = (gets, Fulfilled (Some residentData)) \<and>
        map_of residentData ''assigned'' = Some (JBool True) \<longrightarrow>
      responses (processQueue_async_000 uid mode port get env) = [''Resident Found\<newline>''] \<and>
      audit_statuses (processQueue_async_000 uid mode port get env) = [Some (JStr ''accepted'')]"
    using a [of "Fulfilled (Some residentData)"]
    by (auto simp: processQueue_async_000_def logToFirebase_000_def logCollection_def Let_def
          split: settled.splits)
  have p4: "fetchResidentDataWithRetry_000 uid 3 get = (gets, Rejected e) \<longrightarrow>
      responses (processQueue_async_000 uid mode port get env) = [''Error\<newline>''] \<and>
      audit_statuses (processQueue_async_000 uid mode port get env) = []"
    using a [of "Rejected e"]
    by (auto simp: processQueue_async_000_def)
  have q0: "fetchResidentDataWithRetry_001 uid 3 get = (gets, Fulfilled None) \<longrightarrow>
      take 1 (responses (processQueue_async_001 uid mode port get env)) =
        [''Resident Not Found\<newline>''] \<and>
      audit_statuses (processQueue_async_001 uid mode port get env) = [Some (JStr ''denied'')]"
    using b [of "Fulfilled None"]
    by (cases "all_write env"; cases "second_write env")
      (auto simp: processQueue_async_001_def logToFirebase_001_def logDeniedUID_001_def Let_def)
  have q1: "fetchResidentDataWithRetry_001 uid 3 get = (gets, Fulfilled (Some residentData)) \<and>
        map_of residentData ''assigned'' \<noteq> Some (JBool True) \<longrightarrow>
      take 1 (responses (processQueue_async_001 uid mode port get env)) =
        [''Resident Not Found - Assign Needed\<newline>''] \<and>
      audit_statuses (processQueue_async_001 uid mode port get env) = [Some (JStr ''denied'')]"
    using b [of "Fulfilled (Some residentData)"]
    by (cases "all_write env"; cases "second_write env")
      (auto simp: processQueue_async_001_def logToFirebase_001_def logDeniedUID_001_def Let_def)
  have q2: "fetchResidentDataWithRetry_001 uid 3 get = (gets, Fulfilled (Some residentData)) \<and>
        map_of residentData ''assigned'' = Some (JBool True) \<longrightarrow>
      take 1 (responses (processQueue_async_001 uid mode port get env)) =
        [''Resident Found\<newline>''] \<and>
      audit_statuses (processQueue_async_001 uid mode port get env) = [Some (JStr ''accepted'')]"
    using b [of "Fulfilled (Some residentData)"]
    by (cases "all_write env"; cases "second_write env")
      (auto simp: processQueue_async_001_def logToFirebase_001_def logCollection_def Let_def)
  have q3: "fetchResidentDataWithRetry_001 uid 3 get = (gets, Rejected e) \<longrightarrow>
      responses (processQueue_async_001 uid mode port get env) = [''Error\<newline>''] \<and>
      audit_statuses (processQueue_async_001 uid mode port get env) = []"
    using b [of "Rejected e"]
    by (auto simp: processQueue_async_001_def)
  from p0 p1 p2 p3 p4 q0 q1 q2 q3 show ?thesis by blast
qed


lemma fetch_first_read:
  "get 0 = Fulfilled docSnapshot \<Longrightarrow>
   fetchResidentDataWithRetry_000 uid 3 get =
     ([DbGet ''residents'' uid], Fulfilled (snapshot_data docSnapshot)) \<and>
   fetchResidentDataWithRetry_001 uid 3 get =
     ([DbGet ''residents'' uid], Fulfilled (snapshot_data docSnapshot))"
  by (simp add: fetchResidentDataWithRetry_000_def fetchResidentDataWithRetry_001_def
        tryFetching_000.simps [of uid 3 get 0] fetchLoop_001.simps [of uid 3 get 0])

lemma fetch_never_fulfilled:
  "fetchResidentDataWithRetry_000 uid 3 (script [] (Rejected msg)) =
     (replicate 4 (DbGet ''residents'' uid),
      Rejected (''Failed to fetch data for UID '' @ uid @ '': '' @ msg)) \<and>
   fetchResidentDataWithRetry_001 uid 3 (script [] (Rejected msg)) =
     (replicate 3 (DbGet ''residents'' uid), Rejected msg)"
  by (simp add: fetchResidentDataWithRetry_000_def fetchResidentDataWithRetry_001_def
        tryFetching_000.simps fetchLoop_001.simps script_def numeral_eq_Suc)

theorem decision_table_witness:
  "responses (processQueue_async_000 ''1A2B3C4D'' ''Vehicle Entry'' ''portVehicleEntry''
      (script [] (Fulfilled NoDocument)) (audit_at 1000 (Fulfilled ()) (Fulfilled ()))) =
     [''Resident Not Found\<newline>'']
   \<and> responses (processQueue_async_000 ''1A2B3C4D'' ''Vehicle Entry'' ''portVehicleEntry''
      (script [] (Fulfilled (Document [(''assigned'', JBool False)])))
      (audit_at 1000 (Fulfilled ()) (Fulfilled ()))) = [''Resident Not Found - Assign Needed\<newline>'']
   \<and> audit_messages (processQueue_async_000 ''1A2B3C4D'' ''Vehicle Entry'' ''portVehicleEntry''
      (script [] (Fulfilled (Document [(''name'', JStr ''Ana'')])))
      (audit_at 1000 (Fulfilled ()) (Fulfilled ()))) = [JStr ''UID has no assigned field'']
   \<and> responses (processQueue_async_000 ''1A2B3C4D'' ''Vehicle Entry'' ''portVehicleEntry''
      (script [] (Fulfilled (Document [(''assigned'', JBool True)])))
      (audit_at 1000 (Fulfilled ()) (Fulfilled ()))) = [''Resident Found\<newline>'']
   \<and> responses (processQueue_async_000 ''1A2B3C4D'' ''Vehicle Entry'' ''portVehicleEntry''
      (script [] (Rejected ''unavailable'')) (audit_at 1000 (Fulfilled ()) (Fulfilled ()))) =
     [''Error\<newline>'']
   \<and> take 1 (responses (processQueue_async_001 ''1A2B3C4D'' ''Vehicle Entry'' ''portVehicleEntry''
      (script [] (Fulfilled NoDocument)) (audit_at 1000 (Fulfilled ()) (Fulfilled ())))) =
     [''Resident Not Found\<newline>'']
   \<and> take 1 (responses (processQueue_async_001 ''1A2B3C4D'' ''Vehicle Entry'' ''portVehicleEntry''
      (script [] (Fulfilled (Document [(''assigned'', JBool False)])))
      (audit_at 1000 (Fulfilled ()) (Fulfilled ())))) = [''Resident Not Found - Assign Needed\<newline>'']
   \<and> audit_statuses (processQueue_async_001 ''1A2B3C4D'' ''Vehicle Entry'' ''portVehicleEntry''
      (script [] (Fulfilled (Document [(''assigned'', JBool True)])))
      (audit_at 1000 (Fulfilled ()) (Fulfilled ()))) = [Some (JStr ''accepted'')]
   \<and> responses (processQueue_async_001 ''1A2B3C4D'' ''Vehicle Entry'' ''portVehicleEntry''
      (script [] (Rejected ''unavailable'')) (audit_at 1000 (Fulfilled ()) (Fulfilled ()))) =
     [''Error\<newline>'']"
proof -
  let ?env = "audit_at 1000 (Fulfilled ()) (Fulfilled ())"
  let ?u = "''1A2B3C4D''"
  have w: "all_write ?env = Fulfilled ()"
    by (simp add: audit_at_def)
  have f1: "fetchResidentDataWithRetry_000 ?u 3 (script [] (Fulfilled NoDocument)) =
      ([DbGet ''residents'' ?u], Fulfilled None)"
    and g1: "fetchResidentDataWithRetry_001 ?u 3 (script [] (Fulfilled NoDocument)) =
      ([DbGet ''residents'' ?u], Fulfilled None)"
    using fetch_first_read [of "script [] (Fulfilled NoDocument)" NoDocument ?u]
    by (simp_all add: script_def snapshot_data_def)
  have f2: "fetchResidentDataWithRetry_000 ?u 3 (script [] (Fulfilled (Document d))) =
      ([DbGet ''residents'' ?u], Fulfilled (Some d))"
    and g2: "fetchResidentDataWithRetry_001 ?u 3 (script [] (Fulfilled (Document d))) =
      ([DbGet ''residents'' ?u], Fulfilled (Some d))" for d
    using fetch_first_read [of "script [] (Fulfilled (Document d))" "Document d" ?u]
    by (simp_all add: script_def snapshot_data_def)
  note f3 = fetch_never_fulfilled [of ?u "''unavailable''", THEN conjunct1]
  note g3 = fetch_never_fulfilled [of ?u "''unavailable''", THEN conjunct2]
  note t = decision_table [where uid = ?u and mode = "''Vehicle Entry''"
      and port = "''portVehicleEntry''" and env = ?env]
  have c1: "responses (processQueue_async_000 ?u ''Vehicle Entry'' ''portVehicleEntry''
      (script [] (Fulfilled NoDocument)) ?env) = [''Resident Not Found\<newline>'']"
    using t [where get = "script [] (Fulfilled NoDocument)"] f1 by simp
  have c2: "responses (processQueue_async_000 ?u ''Vehicle Entry'' ''portVehicleEntry''
      (script [] (Fulfilled (Document [(''assigned'', JBool False)]))) ?env) =
      [''Resident Not Found - Assign Needed\<newline>'']"
    using t [where get = "script [] (Fulfilled (Document [(''assigned'', JBool False)]))"
        and residentData = "[(''assigned'', JBool False)]"] f2
    by simp
  have c3: "audit_messages (processQueue_async_000 ?u ''Vehicle Entry'' ''portVehicleEntry''
      (script [] (Fulfilled (Document [(''name'', JStr ''Ana'')]))) ?env) =
      [JStr ''UID has no assigned field'']"
    using t [where get = "script [] (Fulfilled (Document [(''name'', JStr ''Ana'')]))"
        and residentData = "[(''name'', JStr ''Ana'')]"] f2 w
    by simp
  have c4: "responses (processQueue_async_000 ?u ''Vehicle Entry'' ''portVehicleEntry''
      (script [] (Fulfilled (Document [(''assigned'', JBool True)]))) ?env) =
      [''Resident Found\<newline>'']"
    using t [where get = "script [] (Fulfilled (Document [(''assigned'', JBool True)]))"
        and residentData = "[(''assigned'', JBool True)]"] f2
    by simp
  have c5: "responses (processQueue_async_000 ?u ''Vehicle Entry'' ''portVehicleEntry''
      (script [] (Rejected ''unavailable'')) ?env) = [''Error\<newline>'']"
    using t [where get = "script [] (Rejected ''unavailable'')"] f3 by simp
  have d1: "take 1 (responses (processQueue_async_001 ?u ''Vehicle Entry'' ''portVehicleEntry''
      (script [] (Fulfilled NoDocument)) ?env)) = [''Resident Not Found\<newline>'']"
    using t [where get = "script [] (Fulfilled NoDocument)"] g1 by simp
  have d2: "take 1 (responses (processQueue_async_001 ?u ''Vehicle Entry'' ''portVehicleEntry''
      (script [] (Fulfilled (Document [(''assigned'', JBool False)]))) ?env)) =
      [''Resident Not Found - Assign Needed\<newline>'']"
    using t [where get = "script [] (Fulfilled (Document [(''assigned'', JBool False)]))"
        and residentData = "[(''assigned'', JBool False)]"] g2
    by simp
  have d3: "audit_statuses (processQueue_async_001 ?u ''Vehicle Entry'' ''portVehicleEntry''
      (script [] (Fulfilled (Document [(''assigned'', JBool True)]))) ?env) =
      [Some (JStr ''accepted'')]"
    using t [where get = "script [] (Fulfilled (Document [(''assigned'', JBool True)]))"
        and residentData = "[(''assigned'', JBool True)]"] g2
    by simp
  have d4: "responses (processQueue_async_001 ?u ''Vehicle Entry'' ''portVehicleEntry''
      (script [] (Rejected ''unavailable'')) ?env) = [''Error\<newline>'']"
    using t [where get = "script [] (Rejected ''unavailable'')"] g3 by simp
  from c1 c2 c3 c4 c5 d1 d2 d3 d4 show ?thesis by blast
qed

text \<open>
  Claim C1 as stated fails on the second variant: a resident document without an
  \<open>assigned\<close> field is answered \<open>Resident Not Found - Assign Needed\<close>, not
  \<open>Resident Not Found\<close>.
\<close>

theorem decision_table_counterexample:
  "responses (processQueue_async_001 ''1A2B3C4D'' ''Vehicle Entry'' ''portVehicleEntry''
      (script [] (Fulfilled (Document [(''name'', JStr ''Ana'')])))
      (audit_at 1000 (Fulfilled ()) (Fulfilled ()))) =
     [''Resident Not Found - Assign Needed\<newline>'']"
  by (simp add: processQueue_async_001_def fetchResidentDataWithRetry_001_def
        fetchLoop_001.simps script_def snapshot_data_def logToFirebase_001_def
        logDeniedUID_001_def audit_at_def Let_def)

subsection \<open>One response per resolution\<close>

lemma responses_000_single:
  "\<exists>m. responses (processQueue_async_000 uid mode port get env) = [m]"
proof -
  obtain gets r where f: "fetchResidentDataWithRetry_000 uid 3 get = (gets, r)"
    by (cases "fetchResidentDataWithRetry_000 uid 3 get")
  from fetch_000_only_reads [OF f] have g: "responses gets = []" by simp
  show ?thesis
  proof (cases r)
    case (Rejected e)
    with f g show ?thesis by (simp add: processQueue_async_000_def)
  next
    case (Fulfilled found)
    show ?thesis
    proof (cases found)
      case None
      with Fulfilled f g show ?thesis
        by (cases "all_write env") (simp_all add: processQueue_async_000_def logToFirebase_000_def)
    next
      case (Some residentData)
      with Fulfilled f g show ?thesis
        by (cases "all_write env")
          (simp_all add: processQueue_async_000_def logToFirebase_000_def Let_def)
    qed
  qed
qed

lemma responses_001_single:
  assumes "all_write env = Fulfilled ()" and "second_write env = Fulfilled ()"
  shows "\<exists>m. responses (processQueue_async_001 uid mode port get env) = [m]"
proof -
  obtain gets r where f: "fetchResidentDataWithRetry_001 uid 3 get = (gets, r)"
    by (cases "fetchResidentDataWithRetry_001 uid 3 get")
  from fetch_001_only_reads [OF f] have g: "responses gets = []" by simp
  show ?thesis
  proof (cases r)
    case (Rejected e)
    with f g show ?thesis by (simp add: processQueue_async_001_def)
  next
    case (Fulfilled found)
    show ?thesis
    proof (cases found)
      case None
      with Fulfilled f g assms show ?thesis
        by (simp add: processQueue_async_001_def logToFirebase_001_def logDeniedUID_001_def Let_def)
    next
      case (Some residentData)
      with Fulfilled f g assms show ?thesis
        by (simp add: processQueue_async_001_def logToFirebase_001_def logDeniedUID_001_def Let_def)
    qed
  qed
qed

text \<open>
  Claim C2 at its failing input, on the second variant: tag \<open>1A2B3C4D\<close> on
  "Vehicle Entry", resident document \<open>{assigned: true}\<close>, and the write to
  \<open>all_rfid_logs\<close> rejected. \<open>logToFirebase\<close> is awaited inside the \<open>try\<close> block, so its
  rejection reaches the \<open>catch\<close>, which writes a second response line after the first.
\<close>

theorem audit_failure_second_response:
  "responses (processQueue_async_001 ''1A2B3C4D'' ''Vehicle Entry'' ''portVehicleEntry''
      (script [] (Fulfilled (Document [(''assigned'', JBool True)])))
      (audit_at 1000 (Rejected ''quota exceeded'') (Fulfilled ()))) =
     [''Resident Found\<newline>'', ''Error\<newline>'']"
  by (simp add: processQueue_async_001_def fetchResidentDataWithRetry_001_def
        fetchLoop_001.simps script_def snapshot_data_def logToFirebase_001_def
        audit_at_def Let_def)

subsection \<open>The audit writes of a resolution\<close>

lemma logCollection_channels:
  "logCollection ''Vehicle Entry'' = ''latest_accepted_entry_log''"
  "logCollection ''Vehicle Exit'' = ''latest_exit_log''"
  "logCollection ''Walk-out'' = ''latest_exit_log''"
  "logCollection ''Walk Out'' = ''latest_exit_log''"
  by (simp_all add: logCollection_def)

text \<open>
  The walk-in reader is named "Walk-in" ("Walk In" in the second variant), which does
  not contain "Entry": its accepted scans go to \<open>latest_exit_log\<close>.
\<close>

lemma logCollection_walk_in:
  "logCollection ''Walk-in'' = ''latest_exit_log''"
  "logCollection ''Walk In'' = ''latest_exit_log''"
  by (simp_all add: logCollection_def)

text \<open>
  Claim C5, as the code has it. With \<open>r\<close> the result of the resolver, the writes of a
  resolution are, in order:
  \<^item> accepted (\<open>assigned = true\<close>): one write to \<open>all_rfid_logs\<close> under the key tag, "-",
    clock reading; then, if that write was fulfilled, one write keyed by the tag alone to
    \<open>logCollection mode\<close>, which is \<open>latest_accepted_entry_log\<close> for "Vehicle Entry" and
    \<open>latest_exit_log\<close> for "Vehicle Exit", "Walk-out" and "Walk Out";
  \<^item> denied (any other fulfilled result): the write to \<open>all_rfid_logs\<close>; then, if it was
    fulfilled, one write under tag, "-", clock reading to the denied collection
    (\<open>denied_uid\<close> in the first variant, \<open>Denied Uid's\<close> in the second);
  \<^item> a rejected first write is followed by no second write;
  \<^item> error (the resolver rejected): no write at all.
\<close>

theorem audit_sequence:
  "(fetchResidentDataWithRetry_000 uid 3 get = (gets, Fulfilled (Some residentData)) \<and>
      map_of residentData ''assigned'' = Some (JBool True) \<longrightarrow>
      writes (processQueue_async_000 uid mode port get env) =
        (''all_rfid_logs'', uid @ ''-'' @ show_int (key_time env)) #
        (if is_Rejected (all_write env) then [] else [(logCollection mode, uid)]))
   \<and> (fetchResidentDataWithRetry_000 uid 3 get = (gets, Fulfilled (Some residentData)) \<and>
      map_of residentData ''assigned'' \<noteq> Some (JBool True) \<longrightarrow>
      writes (processQueue_async_000 uid mode port get env) =
        (''all_rfid_logs'', uid @ ''-'' @ show_int (key_time env)) #
        (if is_Rejected (all_write env) then []
         else [(''denied_uid'', uid @ ''-'' @ show_int (second_key_time env))]))
   \<and> (fetchResidentDataWithRetry_000 uid 3 get = (gets, Fulfilled None) \<longrightarrow>
      writes (processQueue_async_000 uid mode port get env) =
        (''all_rfid_logs'', uid @ ''-'' @ show_int (key_time env)) #
        (if is_Rejected (all_write env) then []
         else [(''denied_uid'', uid @ ''-'' @ show_int (second_key_time env))]))
   \<and> (fetchResidentDataWithRetry_000 uid 3 get = (gets, Rejected e) \<longrightarrow>
      writes (processQueue_async_000 uid mode port get env) = [])
   \<and> (fetchResidentDataWithRetry_001 uid 3 get = (gets, Fulfilled (Some residentData)) \<and>
      map_of residentData ''assigned'' = Some (JBool True) \<longrightarrow>
      writes (processQueue_async_001 uid mode port get env) =
        (''all_rfid_logs'', uid @ ''-'' @ show_int (key_time env)) #
        (if is_Rejected (all_write env) then [] else [(logCollection mode, uid)]))
   \<and> (fetchResidentDataWithRetry_001 uid 3 get = (gets, Fulfilled (Some residentData)) \<and>
      map_of residentData ''assigned'' \<noteq> Some (JBool True) \<longrightarrow>
      writes (processQueue_async_001 uid mode port get env) =
        (''all_rfid_logs'', uid @ ''-'' @ show_int (key_time env)) #
        (if is_Rejected (all_write env) then []
         else [(''Denied Uid's'', uid @ ''-'' @ show_int (second_key_time env))]))
   \<and> (fetchResidentDataWithRetry_001 uid 3 get = (gets, Fulfilled None) \<longrightarrow>
      writes (processQueue_async_001 uid mode port get env) =
        (''all_rfid_logs'', uid @ ''-'' @ show_int (key_time env)) #
        (if is_Rejected (all_write env) then []
         else [(''Denied Uid's'', uid @ ''-'' @ show_int (second_key_time env))]))
   \<and> (fetchResidentDataWithRetry_001 uid 3 get = (gets, Rejected e) \<longrightarrow>
      writes (processQueue_async_001 uid mode port get env) = [])
   \<and> logCollection ''Vehicle Entry'' = ''latest_accepted_entry_log''
   \<and> logCollection ''Vehicle Exit'' = ''latest_exit_log''
   \<and> logCollection ''Walk-out'' = ''latest_exit_log''
   \<and> logCollection ''Walk Out'' = ''latest_exit_log''"
proof -
  have a: "fetchResidentDataWithRetry_000 uid 3 get = (gets, r) \<Longrightarrow> writes gets = []" for r
    using fetch_000_only_reads [of uid 3 get gets r] by simp
  have b: "fetchResidentDataWithRetry_001 uid 3 get = (gets, r) \<Longrightarrow> writes gets = []" for r
    using fetch_001_only_reads [of uid 3 get gets r] by simp
  have p1: "fetchResidentDataWithRetry_000 uid 3 get = (gets, Fulfilled (Some residentData)) \<and>
      map_of residentData ''assigned'' = Some (JBool True) \<longrightarrow>
      writes (processQueue_async_000 uid mode port get env) =
        (''all_rfid_logs'', uid @ ''-'' @ show_int (key_time env)) #
        (if is_Rejected (all_write env) then [] else [(logCollection mode, uid)])"
    using a [of "Fulfilled (Some residentData)"]
    by (cases "all_write env")
      (auto simp: processQueue_async_000_def logToFirebase_000_def Let_def)
  have p2: "fetchResidentDataWithRetry_000 uid 3 get = (gets, Fulfilled (Some residentData)) \<and>
      map_of residentData ''assigned'' \<noteq> Some (JBool True) \<longrightarrow>
      writes (processQueue_async_000 uid mode port get env) =
        (''all_rfid_logs'', uid @ ''-'' @ show_int (key_time env)) #
        (if is_Rejected (all_write env) then []
         else [(''denied_uid'', uid @ ''-'' @ show_int (second_key_time env))])"
    using a [of "Fulfilled (Some residentData)"]
    by (cases "all_write env")
      (auto simp: processQueue_async_000_def logToFirebase_000_def Let_def)
  have p3: "fetchResidentDataWithRetry_000 uid 3 get = (gets, Fulfilled None) \<longrightarrow>
      writes (processQueue_async_000 uid mode port get env) =
        (''all_rfid_logs'', uid @ ''-'' @ show_int (key_time env)) #
        (if is_Rejected (all_write env) then []
         else [(''denied_uid'', uid @ ''-'' @ show_int (second_key_time env))])"
    using a [of "Fulfilled None"]
    by (cases "all_write env")
      (auto simp: processQueue_async_000_def logToFirebase_000_def Let_def)
  have p4: "fetchResidentDataWithRetry_000 uid 3 get = (gets, Rejected e) \<longrightarrow>
      writes (processQueue_async_000 uid mode port get env) = []"
    using a [of "Rejected e"] by (auto simp: processQueue_async_000_def)
  have q1: "fetchResidentDataWithRetry_001 uid 3 get = (gets, Fulfilled (Some residentData)) \<and>
      map_of residentData ''assigned'' = Some (JBool True) \<longrightarrow>
      writes (processQueue_async_001 uid mode port get env) =
        (''all_rfid_logs'', uid @ ''-'' @ show_int (key_time env)) #
        (if is_Rejected (all_write env) then [] else [(logCollection mode, uid)])"
    using b [of "Fulfilled (Some residentData)"]
    by (cases "all_write env"; cases "second_write env")
      (auto simp: processQueue_async_001_def logToFirebase_001_def Let_def)
  have q2: "fetchResidentDataWithRetry_001 uid 3 get = (gets, Fulfilled (Some residentData)) \<and>
      map_of residentData ''assigned'' \<noteq> Some (JBool True) \<longrightarrow>
      writes (processQueue_async_001 uid mode port get env) =
        (''all_rfid_logs'', uid @ ''-'' @ show_int (key_time env)) #
        (if is_Rejected (all_write env) then []
         else [(''Denied Uid's'', uid @ ''-'' @ show_int (second_key_time env))])"
    using b [of "Fulfilled (Some residentData)"]
    by (cases "all_write env"; cases "second_write env")
      (auto simp: processQueue_async_001_def logToFirebase_001_def logDeniedUID_001_def Let_def)
  have q3: "fetchResidentDataWithRetry_001 uid 3 get = (gets, Fulfilled None) \<longrightarrow>
      writes (processQueue_async_001 uid mode port get env) =
        (''all_rfid_logs'', uid @ ''-'' @ show_int (key_time env)) #
        (if is_Rejected (all_write env) then []
         else [(''Denied Uid's'', uid @ ''-'' @ show_int (second_key_time env))])"
    using b [of "Fulfilled None"]
    by (cases "all_write env"; cases "second_write env")
      (auto simp: processQueue_async_001_def logToFirebase_001_def logDeniedUID_001_def Let_def)
  have q4: "fetchResidentDataWithRetry_001 uid 3 get = (gets, Rejected e) \<longrightarrow>
      writes (processQueue_async_001 uid mode port get env) = []"
    using b [of "Rejected e"] by (auto simp: processQueue_async_001_def)
  from p1 p2 p3 p4 q1 q2 q3 q4 logCollection_channels show ?thesis by blast
qed

lemma show_int_1000: "show_int 1000 = ''1000''"
  by (simp add: show_int_def show_digits.simps)

theorem audit_sequence_witness:
  "writes (processQueue_async_000 ''1A2B3C4D'' ''Vehicle Entry'' ''portVehicleEntry''
      (script [] (Fulfilled (Document [(''assigned'', JBool True)])))
      (audit_at 1000 (Fulfilled ()) (Fulfilled ()))) =
     [(''all_rfid_logs'', ''1A2B3C4D-1000''), (''latest_accepted_entry_log'', ''1A2B3C4D'')]
   \<and> writes (processQueue_async_000 ''deadbeef'' ''Walk-out'' ''portWalkOut''
      (script [] (Fulfilled NoDocument)) (audit_at 1000 (Fulfilled ()) (Fulfilled ()))) =
     [(''all_rfid_logs'', ''deadbeef-1000''), (''denied_uid'', ''deadbeef-1000'')]
   \<and> writes (processQueue_async_000 ''deadbeef'' ''Walk-out'' ''portWalkOut''
      (script [] (Fulfilled (Document [(''assigned'', JBool False)])))
      (audit_at 1000 (Rejected ''quota exceeded'') (Fulfilled ()))) =
     [(''all_rfid_logs'', ''deadbeef-1000'')]
   \<and> writes (processQueue_async_000 ''deadbeef'' ''Walk-out'' ''portWalkOut''
      (script [] (Rejected ''unavailable'')) (audit_at 1000 (Fulfilled ()) (Fulfilled ()))) = []
   \<and> writes (processQueue_async_001 ''1A2B3C4D'' ''Vehicle Exit'' ''portVehicleExit''
      (script [] (Fulfilled (Document [(''assigned'', JBool True)])))
      (audit_at 1000 (Fulfilled ()) (Fulfilled ()))) =
     [(''all_rfid_logs'', ''1A2B3C4D-1000''), (''latest_exit_log'', ''1A2B3C4D'')]
   \<and> writes (processQueue_async_001 ''deadbeef'' ''Walk Out'' ''portWalkOut''
      (script [] (Fulfilled NoDocument)) (audit_at 1000 (Fulfilled ()) (Fulfilled ()))) =
     [(''all_rfid_logs'', ''deadbeef-1000''), (''Denied Uid's'', ''deadbeef-1000'')]
   \<and> writes (processQueue_async_001 ''deadbeef'' ''Walk Out'' ''portWalkOut''
      (script [] (Fulfilled (Document [(''assigned'', JBool False)])))
      (audit_at 1000 (Fulfilled ()) (Fulfilled ()))) =
     [(''all_rfid_logs'', ''deadbeef-1000''), (''Denied Uid's'', ''deadbeef-1000'')]
   \<and> writes (processQueue_async_001 ''deadbeef'' ''Walk Out'' ''portWalkOut''
      (script [] (Rejected ''unavailable'')) (audit_at 1000 (Fulfilled ()) (Fulfilled ()))) = []"
proof -
  let ?ok = "audit_at 1000 (Fulfilled ()) (Fulfilled ())"
  let ?bad = "audit_at 1000 (Rejected ''quota exceeded'') (Fulfilled ())"
  have f1: "fetchResidentDataWithRetry_000 u 3 (script [] (Fulfilled NoDocument)) =
      ([DbGet ''residents'' u], Fulfilled None)"
    and g1: "fetchResidentDataWithRetry_001 u 3 (script [] (Fulfilled NoDocument)) =
      ([DbGet ''residents'' u], Fulfilled None)" for u
    using fetch_first_read [of "script [] (Fulfilled NoDocument)" NoDocument u]
    by (simp_all add: script_def snapshot_data_def)
  have f2: "fetchResidentDataWithRetry_000 u 3 (script [] (Fulfilled (Document d))) =
      ([DbGet ''residents'' u], Fulfilled (Some d))"
    and g2: "fetchResidentDataWithRetry_001 u 3 (script [] (Fulfilled (Document d))) =
      ([DbGet ''residents'' u], Fulfilled (Some d))" for d u
    using fetch_first_read [of "script [] (Fulfilled (Document d))" "Document d" u]
    by (simp_all add: script_def snapshot_data_def)
  note f3 = fetch_never_fulfilled [of "''deadbeef''" "''unavailable''", THEN conjunct1]
  note g3 = fetch_never_fulfilled [of "''deadbeef''" "''unavailable''", THEN conjunct2]
  have c1: "writes (processQueue_async_000 ''1A2B3C4D'' ''Vehicle Entry'' ''portVehicleEntry''
      (script [] (Fulfilled (Document [(''assigned'', JBool True)]))) ?ok) =
     [(''all_rfid_logs'', ''1A2B3C4D-1000''), (''latest_accepted_entry_log'', ''1A2B3C4D'')]"
    using audit_sequence [where uid = "''1A2B3C4D''" and mode = "''Vehicle Entry''"
        and port = "''portVehicleEntry''" and env = ?ok
        and get = "script [] (Fulfilled (Document [(''assigned'', JBool True)]))"
        and residentData = "[(''assigned'', JBool True)]"] f2
    by (simp add: audit_at_def show_int_1000)
  have c2: "writes (processQueue_async_000 ''deadbeef'' ''Walk-out'' ''portWalkOut''
      (script [] (Fulfilled NoDocument)) ?ok) =
     [(''all_rfid_logs'', ''deadbeef-1000''), (''denied_uid'', ''deadbeef-1000'')]"
    using audit_sequence [where uid = "''deadbeef''" and mode = "''Walk-out''"
        and port = "''portWalkOut''" and env = ?ok
        and get = "script [] (Fulfilled NoDocument)"] f1
    by (simp add: audit_at_def show_int_1000)
  have c3: "writes (processQueue_async_000 ''deadbeef'' ''Walk-out'' ''portWalkOut''
      (script [] (Fulfilled (Document [(''assigned'', JBool False)]))) ?bad) =
     [(''all_rfid_logs'', ''deadbeef-1000'')]"
    using audit_sequence [where uid = "''deadbeef''" and mode = "''Walk-out''"
        and port = "''portWalkOut''" and env = ?bad
        and get = "script [] (Fulfilled (Document [(''assigned'', JBool False)]))"
        and residentData = "[(''assigned'', JBool False)]"] f2
    by (simp add: audit_at_def show_int_1000)
  have c4: "writes (processQueue_async_000 ''deadbeef'' ''Walk-out'' ''portWalkOut''
      (script [] (Rejected ''unavailable'')) ?ok) = []"
    using audit_sequence [where uid = "''deadbeef''" and mode = "''Walk-out''"
        and port = "''portWalkOut''" and env = ?ok
        and get = "script [] (Rejected ''unavailable'')"] f3
    by simp
  have d1: "writes (processQueue_async_001 ''1A2B3C4D'' ''Vehicle Exit'' ''portVehicleExit''
      (script [] (Fulfilled (Document [(''assigned'', JBool True)]))) ?ok) =
     [(''all_rfid_logs'', ''1A2B3C4D-1000''), (''latest_exit_log'', ''1A2B3C4D'')]"
    using audit_sequence [where uid = "''1A2B3C4D''" and mode = "''Vehicle Exit''"
        and port = "''portVehicleExit''" and env = ?ok
        and get = "script [] (Fulfilled (Document [(''assigned'', JBool True)]))"
        and residentData = "[(''assigned'', JBool True)]"] g2
    by (simp add: audit_at_def show_int_1000)
  have d2: "writes (processQueue_async_001 ''deadbeef'' ''Walk Out'' ''portWalkOut''
      (script [] (Fulfilled NoDocument)) ?ok) =
     [(''all_rfid_logs'', ''deadbeef-1000''), (''Denied Uid's'', ''deadbeef-1000'')]"
    using audit_sequence [where uid = "''deadbeef''" and mode = "''Walk Out''"
        and port = "''portWalkOut''" and env = ?ok
        and get = "script [] (Fulfilled NoDocument)"] g1
    by (simp add: audit_at_def show_int_1000)
  have d3: "writes (processQueue_async_001 ''deadbeef'' ''Walk Out'' ''portWalkOut''
      (script [] (Fulfilled (Document [(''assigned'', JBool False)]))) ?ok) =
     [(''all_rfid_logs'', ''deadbeef-1000''), (''Denied Uid's'', ''deadbeef-1000'')]"
    using audit_sequence [where uid = "''deadbeef''" and mode = "''Walk Out''"
        and port = "''portWalkOut''" and env = ?ok
        and get = "script [] (Fulfilled (Document [(''assigned'', JBool False)]))"
        and residentData = "[(''assigned'', JBool False)]"] g2
    by (simp add: audit_at_def show_int_1000)
  have d4: "writes (processQueue_async_001 ''deadbeef'' ''Walk Out'' ''portWalkOut''
      (script [] (Rejected ''unavailable'')) ?ok) = []"
    using audit_sequence [where uid = "''deadbeef''" and mode = "''Walk Out''"
        and port = "''portWalkOut''" and env = ?ok
        and get = "script [] (Rejected ''unavailable'')"] g3
    by simp
  from c1 c2 c3 c4 d1 d2 d3 d4 show ?thesis by blast
qed

text \<open>
  Claim C5 as stated fails for the Error decision: when every read of the resolver is
  rejected, the resolution writes nothing, so there is no append to \<open>all_rfid_logs\<close>.
\<close>

theorem audit_sequence_counterexample:
  "writes (processQueue_async_000 ''1A2B3C4D'' ''Vehicle Entry'' ''portVehicleEntry''
      (script [] (Rejected ''unavailable'')) (audit_at 1000 (Fulfilled ()) (Fulfilled ()))) = []
   \<and> responses (processQueue_async_000 ''1A2B3C4D'' ''Vehicle Entry'' ''portVehicleEntry''
      (script [] (Rejected ''unavailable'')) (audit_at 1000 (Fulfilled ()) (Fulfilled ()))) =
     [''Error\<newline>'']"
  by (simp add: processQueue_async_000_def fetchResidentDataWithRetry_000_def
        tryFetching_000.simps script_def numeral_eq_Suc)

subsection \<open>The cooldown gate\<close>

lemma length_toLowerCase: "length (toLowerCase s) = length s"
  by (simp add: toLowerCase_def)

lemma valid_not_ping: "isValidUID (trim data) \<Longrightarrow> \<not> isPingResponse data"
proof
  assume v: "isValidUID (trim data)" and p: "isPingResponse data"
  from p have "length (toLowerCase (trim data)) = 4"
    by (simp add: isPingResponse_def)
  with v show False
    by (simp add: length_toLowerCase isValidUID_def)
qed

lemma processQueue_push_empty:
  "queue s = [] \<Longrightarrow>
   processQueue (push s uid) d =
     (s\<lparr>queue := [], cooldownCache := (cooldownCache s)(uid \<mapsto> d)\<rparr>, Some uid)"
  by (simp add: processQueue_def push_def)

text \<open>
  Claim C3. A stored reading of 0 counts as no reading in the guard (\<open>!cooldownCache[uid]\<close>),
  so the claim is stated for a clock that did not read 0 when the tag was stamped. Under
  that assumption:
  \<^item> \<open>admit\<close> holds exactly when the tag is not in the pending queue and it has no reading
    or the time since its reading is at least the window (the constant of the file:
    180000 in the first variant, 10000 in the second);
  \<^item> an admitted line makes the handler push the tag at the end of the queue and call
    \<open>processQueue\<close> on the result;
  \<^item> a refused line leaves the state as it was, starts nothing and writes no response.
\<close>

theorem admit_gate:
  assumes "cooldownCache s uid \<noteq> Some 0"
  shows
    "(admit W s uid currentTime \<longleftrightarrow>
        uid \<notin> set (queue s) \<and>
        (cooldownCache s uid = None \<or>
         (\<exists>stamped. cooldownCache s uid = Some stamped \<and> W \<le> currentTime - stamped)))
     \<and> cooldownTime_000 = 180000 \<and> cooldownTime_001 = 10000
     \<and> queue (push s uid) = queue s @ [uid]
     \<and> (isValidUID (trim data) \<and> admit cooldownTime_000 s (trim data) currentTime \<longrightarrow>
          fst (handleReaderData_000 data mode s port currentTime dequeueTime) =
            fst (processQueue (push s (trim data)) dequeueTime) \<and>
          snd (snd (handleReaderData_000 data mode s port currentTime dequeueTime)) =
            snd (processQueue (push s (trim data)) dequeueTime) \<and>
          responses (fst (snd (handleReaderData_000 data mode s port currentTime dequeueTime))) = [])
     \<and> (isValidUID (trim data) \<and> \<not> admit cooldownTime_000 s (trim data) currentTime \<longrightarrow>
          fst (handleReaderData_000 data mode s port currentTime dequeueTime) = s \<and>
          snd (snd (handleReaderData_000 data mode s port currentTime dequeueTime)) = None \<and>
          responses (fst (snd (handleReaderData_000 data mode s port currentTime dequeueTime))) = [])
     \<and> (isValidUID (trim data) \<and> admit cooldownTime_001 s (trim data) currentTime \<longrightarrow>
          fst (handleReaderData_001 data mode s port currentTime dequeueTime) =
            fst (processQueue (push s (trim data)) dequeueTime) \<and>
          snd (snd (handleReaderData_001 data mode s port currentTime dequeueTime)) =
            snd (processQueue (push s (trim data)) dequeueTime) \<and>
          responses (fst (snd (handleReaderData_001 data mode s port currentTime dequeueTime))) = [])
     \<and> (isValidUID (trim data) \<and> \<not> admit cooldownTime_001 s (trim data) currentTime \<longrightarrow>
          fst (handleReaderData_001 data mode s port currentTime dequeueTime) = s \<and>
          snd (snd (handleReaderData_001 data mode s port currentTime dequeueTime)) = None \<and>
          responses (fst (snd (handleReaderData_001 data mode s port currentTime dequeueTime))) = [])"
proof -
  have gate: "admit W s uid currentTime \<longleftrightarrow>
        uid \<notin> set (queue s) \<and>
        (cooldownCache s uid = None \<or>
         (\<exists>stamped. cooldownCache s uid = Some stamped \<and> W \<le> currentTime - stamped))"
    using assms by (cases "cooldownCache s uid") (auto simp: admit_def)
  have windows: "cooldownTime_000 = 180000 \<and> cooldownTime_001 = 10000"
    by (simp add: cooldownTime_000_def cooldownTime_001_def)
  have pushed: "queue (push s uid) = queue s @ [uid]"
    by (simp add: push_def)
  have in0: "isValidUID (trim data) \<and> admit cooldownTime_000 s (trim data) currentTime \<longrightarrow>
          fst (handleReaderData_000 data mode s port currentTime dequeueTime) =
            fst (processQueue (push s (trim data)) dequeueTime) \<and>
          snd (snd (handleReaderData_000 data mode s port currentTime dequeueTime)) =
            snd (processQueue (push s (trim data)) dequeueTime) \<and>
          responses (fst (snd (handleReaderData_000 data mode s port currentTime dequeueTime))) = []"
    using valid_not_ping [of data]
    by (auto simp: handleReaderData_000_def Let_def split: prod.splits)
  have out0: "isValidUID (trim data) \<and> \<not> admit cooldownTime_000 s (trim data) currentTime \<longrightarrow>
          fst (handleReaderData_000 data mode s port currentTime dequeueTime) = s \<and>
          snd (snd (handleReaderData_000 data mode s port currentTime dequeueTime)) = None \<and>
          responses (fst (snd (handleReaderData_000 data mode s port currentTime dequeueTime))) = []"
    using valid_not_ping [of data]
    by (auto simp: handleReaderData_000_def Let_def)
  have in1: "isValidUID (trim data) \<and> admit cooldownTime_001 s (trim data) currentTime \<longrightarrow>
          fst (handleReaderData_001 data mode s port currentTime dequeueTime) =
            fst (processQueue (push s (trim data)) dequeueTime) \<and>
          snd (snd (handleReaderData_001 data mode s port currentTime dequeueTime)) =
            snd (processQueue (push s (trim data)) dequeueTime) \<and>
          responses (fst (snd (handleReaderData_001 data mode s port currentTime dequeueTime))) = []"
    by (auto simp: handleReaderData_001_def Let_def split: prod.splits)
  have out1: "isValidUID (trim data) \<and> \<not> admit cooldownTime_001 s (trim data) currentTime \<longrightarrow>
          fst (handleReaderData_001 data mode s port currentTime dequeueTime) = s \<and>
          snd (snd (handleReaderData_001 data mode s port currentTime dequeueTime)) = None \<and>
          responses (fst (snd (handleReaderData_001 data mode s port currentTime dequeueTime))) = []"
    by (auto simp: handleReaderData_001_def Let_def)
  from gate windows pushed in0 out0 in1 out1 show ?thesis by blast
qed


lemma example_tags_valid:
  "trim ''1A2B3C4D'' = ''1A2B3C4D''" "isValidUID ''1A2B3C4D''"
  "trim ''deadbeef'' = ''deadbeef''" "isValidUID ''deadbeef''"
  "trim ''00000000'' = ''00000000''" "isValidUID ''00000000''"
  by (simp_all add: trim_def isWhiteSpace_def isValidUID_def isHexDigit_def)

theorem admit_gate_witness:
  "admit 180000 (chan initial) ''1A2B3C4D'' 5000
   \<and> \<not> admit 180000 (push (chan initial) ''1A2B3C4D'') ''1A2B3C4D'' 5000
   \<and> \<not> admit 180000 \<lparr>queue = [], cooldownCache = [''1A2B3C4D'' \<mapsto> 1000]\<rparr> ''1A2B3C4D'' 180999
   \<and> admit 180000 \<lparr>queue = [], cooldownCache = [''1A2B3C4D'' \<mapsto> 1000]\<rparr> ''1A2B3C4D'' 181000
   \<and> snd (snd (handleReaderData_000 ''1A2B3C4D'' ''Vehicle Entry''
        \<lparr>queue = [], cooldownCache = [''1A2B3C4D'' \<mapsto> 1000]\<rparr> ''portVehicleEntry'' 5000 5001)) = None
   \<and> fst (handleReaderData_001 ''1A2B3C4D'' ''Vehicle Entry''
        \<lparr>queue = [], cooldownCache = [''1A2B3C4D'' \<mapsto> 1000]\<rparr> ''portVehicleEntry'' 11000 11001) =
      fst (processQueue (push \<lparr>queue = [], cooldownCache = [''1A2B3C4D'' \<mapsto> 1000]\<rparr> ''1A2B3C4D'')
        11001)"
proof -
  let ?s = "\<lparr>queue = [], cooldownCache = [''1A2B3C4D'' \<mapsto> (1000::int)]\<rparr>"
  let ?u = "''1A2B3C4D''"
  have g: "cooldownCache s uid \<noteq> Some 0 \<Longrightarrow>
      admit W s uid t \<longleftrightarrow>
        uid \<notin> set (queue s) \<and>
        (cooldownCache s uid = None \<or> (\<exists>stamped. cooldownCache s uid = Some stamped \<and> W \<le> t - stamped))"
    for s uid W t
    using admit_gate [of s uid W t uid "''Vehicle Entry''" "''portVehicleEntry''" 0] by blast
  have c1: "admit 180000 (chan initial) ?u 5000"
    using g [of "chan initial" ?u 180000 5000] by (simp add: initial_def)
  have c2: "\<not> admit 180000 (push (chan initial) ?u) ?u 5000"
    using g [of "push (chan initial) ?u" ?u 180000 5000]
    by (simp add: initial_def push_def)
  have c3: "\<not> admit 180000 ?s ?u 180999"
    using g [of ?s ?u 180000 180999] by simp
  have c4: "admit 180000 ?s ?u 181000"
    using g [of ?s ?u 180000 181000] by simp
  have c5: "\<not> admit cooldownTime_000 ?s ?u 5000"
    using g [of ?s ?u cooldownTime_000 5000] by (simp add: cooldownTime_000_def)
  have c6: "admit cooldownTime_001 ?s ?u 11000"
    using g [of ?s ?u cooldownTime_001 11000] by (simp add: cooldownTime_001_def)
  have c7: "snd (snd (handleReaderData_000 ?u ''Vehicle Entry'' ?s ''portVehicleEntry'' 5000 5001)) = None"
    using admit_gate [of ?s ?u 180000 5000 ?u "''Vehicle Entry''" "''portVehicleEntry''" 5001] c5
    by (simp add: example_tags_valid)
  have c8: "fst (handleReaderData_001 ?u ''Vehicle Entry'' ?s ''portVehicleEntry'' 11000 11001) =
      fst (processQueue (push ?s ?u) 11001)"
    using admit_gate [of ?s ?u 180000 11000 ?u "''Vehicle Entry''" "''portVehicleEntry''" 11001] c6
    by (simp add: example_tags_valid)
  from c1 c2 c3 c4 c7 c8 show ?thesis by blast
qed

subsection \<open>The cooldown clock\<close>

text \<open>
  Claim C4. For a tag \<open>uid\<close> at the head of a queue without duplicates, dequeued by
  \<open>processQueue\<close> at a clock reading \<open>d\<close> other than 0:
  \<^item> the resolution of \<open>uid\<close> starts and the cache holds \<open>d\<close> for it, while the push that
    enqueued it left the cache alone;
  \<^item> afterwards \<open>admit\<close> holds for \<open>uid\<close> at time \<open>t\<close> exactly when \<open>t - d\<close> has reached the
    window;
  \<^item> while \<open>uid\<close> is in the queue, that is from its push to its dequeue, \<open>admit\<close> refuses it
    at every time;
  \<^item> in the handlers, where the queue is empty when a line arrives, the reading stored for
    an admitted tag is the one \<open>processQueue\<close> took, not the one of the guard.
\<close>

theorem cooldown_starts_at_dequeue:
  assumes "queue s = uid # rest" and "uid \<notin> set rest" and "d \<noteq> 0"
  shows
    "snd (processQueue s d) = Some uid
     \<and> cooldownCache (fst (processQueue s d)) uid = Some d
     \<and> cooldownCache (push s0 uid) = cooldownCache s0
     \<and> (admit W (fst (processQueue s d)) uid t \<longleftrightarrow> W \<le> t - d)
     \<and> \<not> admit W s uid t
     \<and> \<not> admit W (push s0 uid) uid t
     \<and> (queue s0 = [] \<and> isValidUID (trim data) \<and> trim data = uid \<and>
          admit cooldownTime_000 s0 uid currentTime \<longrightarrow>
          cooldownCache (fst (handleReaderData_000 data mode s0 port currentTime d)) uid = Some d)
     \<and> (queue s0 = [] \<and> isValidUID (trim data) \<and> trim data = uid \<and>
          admit cooldownTime_001 s0 uid currentTime \<longrightarrow>
          cooldownCache (fst (handleReaderData_001 data mode s0 port currentTime d)) uid = Some d)"
proof -
  have a: "snd (processQueue s d) = Some uid \<and> cooldownCache (fst (processQueue s d)) uid = Some d"
    using assms by (simp add: processQueue_def)
  have b: "cooldownCache (push s0 uid) = cooldownCache s0"
    by (simp add: push_def)
  have c: "admit W (fst (processQueue s d)) uid t \<longleftrightarrow> W \<le> t - d"
    using assms by (simp add: processQueue_def admit_def)
  have e: "\<not> admit W s uid t" "\<not> admit W (push s0 uid) uid t"
    using assms by (simp_all add: admit_def push_def)
  have f: "queue s0 = [] \<and> isValidUID (trim data) \<and> trim data = uid \<and>
          admit cooldownTime_000 s0 uid currentTime \<longrightarrow>
          cooldownCache (fst (handleReaderData_000 data mode s0 port currentTime d)) uid = Some d"
    using valid_not_ping [of data]
    by (auto simp: handleReaderData_000_def processQueue_push_empty)
  have g: "queue s0 = [] \<and> isValidUID (trim data) \<and> trim data = uid \<and>
          admit cooldownTime_001 s0 uid currentTime \<longrightarrow>
          cooldownCache (fst (handleReaderData_001 data mode s0 port currentTime d)) uid = Some d"
    by (auto simp: handleReaderData_001_def processQueue_push_empty)
  from a b c e f g show ?thesis by blast
qed

theorem cooldown_starts_at_dequeue_witness:
  "cooldownCache (fst (processQueue \<lparr>queue = [''1A2B3C4D''], cooldownCache = Map.empty\<rparr> 2000))
      ''1A2B3C4D'' = Some 2000
   \<and> \<not> admit 180000 (fst (processQueue \<lparr>queue = [''1A2B3C4D''], cooldownCache = Map.empty\<rparr> 2000))
         ''1A2B3C4D'' 181999
   \<and> admit 180000 (fst (processQueue \<lparr>queue = [''1A2B3C4D''], cooldownCache = Map.empty\<rparr> 2000))
         ''1A2B3C4D'' 182000
   \<and> \<not> admit 180000 \<lparr>queue = [''1A2B3C4D''], cooldownCache = Map.empty\<rparr> ''1A2B3C4D'' 1999
   \<and> cooldownCache (fst (handleReaderData_000 ''1A2B3C4D'' ''Vehicle Entry'' (chan initial)
        ''portVehicleEntry'' 1999 2000)) ''1A2B3C4D'' = Some 2000"
proof -
  let ?s = "\<lparr>queue = [''1A2B3C4D''], cooldownCache = Map.empty\<rparr> :: channel_state"
  let ?u = "''1A2B3C4D''"
  have q: "queue ?s = ?u # []" "?u \<notin> set []" "(2000::int) \<noteq> 0"
    by simp_all
  have ad: "admit cooldownTime_000 (chan initial) ?u 1999"
    by (simp add: admit_def initial_def)
  have e: "queue (chan initial) = []"
    by (simp add: initial_def)
  note t1 = cooldown_starts_at_dequeue [OF q, of "chan initial" 180000 181999 ?u 1999
      "''Vehicle Entry''" "''portVehicleEntry''"]
  note t2 = cooldown_starts_at_dequeue [OF q, of "chan initial" 180000 182000 ?u 1999
      "''Vehicle Entry''" "''portVehicleEntry''"]
  note t3 = cooldown_starts_at_dequeue [OF q, of "chan initial" 180000 1999 ?u 1999
      "''Vehicle Entry''" "''portVehicleEntry''"]
  from t1 have c1: "cooldownCache (fst (processQueue ?s 2000)) ?u = Some 2000" by blast
  from t1 have c2: "\<not> admit 180000 (fst (processQueue ?s 2000)) ?u 181999" by simp
  from t2 have c3: "admit 180000 (fst (processQueue ?s 2000)) ?u 182000" by simp
  from t3 have c4: "\<not> admit 180000 ?s ?u 1999" by blast
  from t3 ad e have c5: "cooldownCache (fst (handleReaderData_000 ?u ''Vehicle Entry'' (chan initial)
        ''portVehicleEntry'' 1999 2000)) ?u = Some 2000"
    by (simp add: example_tags_valid)
  from c1 c2 c3 c4 c5 show ?thesis by blast
qed

subsection \<open>The stamp of a dequeued tag stays\<close>

lemma run_000_Cons: "run_000 mode port (ev # evs) c = run_000 mode port evs (step_000 mode port c ev)"
  by (simp add: run_000_def)

lemma run_001_Cons: "run_001 mode port (ev # evs) c = run_001 mode port evs (step_001 mode port c ev)"
  by (simp add: run_001_def)

lemma handleReaderData_000_keeps_stamp:
  assumes "queue s = []" and "cooldownCache s uid = Some d" and "d \<noteq> 0"
    and "trim data \<noteq> uid \<or> currentTime - d < cooldownTime_000"
  shows "queue (fst (handleReaderData_000 data mode s port currentTime dequeueTime)) = [] \<and>
    cooldownCache (fst (handleReaderData_000 data mode s port currentTime dequeueTime)) uid = Some d"
proof (cases "trim data = uid")
  case True
  with assms have "\<not> admit cooldownTime_000 s (trim data) currentTime"
    by (simp add: admit_def)
  with assms show ?thesis
    by (simp add: handleReaderData_000_def Let_def)
next
  case False
  with assms show ?thesis
    by (simp add: handleReaderData_000_def Let_def processQueue_push_empty)
qed

lemma handleReaderData_001_keeps_stamp:
  assumes "queue s = []" and "cooldownCache s uid = Some d" and "d \<noteq> 0"
    and "trim data \<noteq> uid \<or> currentTime - d < cooldownTime_001"
  shows "queue (fst (handleReaderData_001 data mode s port currentTime dequeueTime)) = [] \<and>
    cooldownCache (fst (handleReaderData_001 data mode s port currentTime dequeueTime)) uid = Some d"
proof (cases "trim data = uid")
  case True
  with assms have "\<not> admit cooldownTime_001 s (trim data) currentTime"
    by (simp add: admit_def)
  with assms show ?thesis
    by (simp add: handleReaderData_001_def Let_def)
next
  case False
  with assms show ?thesis
    by (simp add: handleReaderData_001_def Let_def processQueue_push_empty)
qed

lemma step_000_keeps_stamp:
  assumes "queue (chan c) = []" and "cooldownCache (chan c) uid = Some d" and "d \<noteq> 0"
    and "within_window cooldownTime_000 uid d ev"
  shows "queue (chan (step_000 mode port c ev)) = [] \<and>
    cooldownCache (chan (step_000 mode port c ev)) uid = Some d"
proof (cases ev)
  case (Line data currentTime dequeueTime)
  with assms handleReaderData_000_keeps_stamp [of "chan c" uid d data currentTime mode port dequeueTime]
  show ?thesis
    by (auto simp: within_window_def split: prod.splits)
next
  case (Settle i get env)
  with assms show ?thesis by simp
qed

lemma step_001_keeps_stamp:
  assumes "queue (chan c) = []" and "cooldownCache (chan c) uid = Some d" and "d \<noteq> 0"
    and "within_window cooldownTime_001 uid d ev"
  shows "queue (chan (step_001 mode port c ev)) = [] \<and>
    cooldownCache (chan (step_001 mode port c ev)) uid = Some d"
proof (cases ev)
  case (Line data currentTime dequeueTime)
  with assms handleReaderData_001_keeps_stamp [of "chan c" uid d data currentTime mode port dequeueTime]
  show ?thesis
    by (auto simp: within_window_def split: prod.splits)
next
  case (Settle i get env)
  with assms show ?thesis by simp
qed

lemma run_000_keeps_stamp:
  "queue (chan c) = [] \<Longrightarrow> cooldownCache (chan c) uid = Some d \<Longrightarrow> d \<noteq> 0 \<Longrightarrow>
   list_all (within_window cooldownTime_000 uid d) evs \<Longrightarrow>
   queue (chan (run_000 mode port evs c)) = [] \<and>
   cooldownCache (chan (run_000 mode port evs c)) uid = Some d"
proof (induction evs arbitrary: c)
  case Nil
  then show ?case by (simp add: run_000_def)
next
  case (Cons ev evs)
  from Cons.prems have "queue (chan (step_000 mode port c ev)) = [] \<and>
      cooldownCache (chan (step_000 mode port c ev)) uid = Some d"
    by (intro step_000_keeps_stamp) simp_all
  with Cons.IH [of "step_000 mode port c ev"] Cons.prems show ?case
    by (simp add: run_000_Cons)
qed

lemma run_001_keeps_stamp:
  "queue (chan c) = [] \<Longrightarrow> cooldownCache (chan c) uid = Some d \<Longrightarrow> d \<noteq> 0 \<Longrightarrow>
   list_all (within_window cooldownTime_001 uid d) evs \<Longrightarrow>
   queue (chan (run_001 mode port evs c)) = [] \<and>
   cooldownCache (chan (run_001 mode port evs c)) uid = Some d"
proof (induction evs arbitrary: c)
  case Nil
  then show ?case by (simp add: run_001_def)
next
  case (Cons ev evs)
  from Cons.prems have "queue (chan (step_001 mode port c ev)) = [] \<and>
      cooldownCache (chan (step_001 mode port c ev)) uid = Some d"
    by (intro step_001_keeps_stamp) simp_all
  with Cons.IH [of "step_001 mode port c ev"] Cons.prems show ?case
    by (simp add: run_001_Cons)
qed

text \<open>
  Claim C10. A line with a valid tag is admitted on a channel whose queue is empty and
  \<open>processQueue\<close> reads the clock as \<open>d\<close> (not 0). Then, in both variants:
  \<^item> the channel state the handler returns already holds \<open>d\<close> for the tag; the resolution,
    whose first step is the store read, is a function of the tag and the store alone and
    has no access to that state;
  \<^item> after any further events that do not admit the tag again (resolutions settling in
    any way, lines with other tags, lines read before \<open>d\<close> plus the window) the cache still
    holds \<open>d\<close>, and the tag is refused at every time \<open>t\<close> with \<open>t - d\<close> below the window;
  \<^item> this includes the resolution whose reads are all rejected: its only response is
    \<open>Error\<close>, and settling it changes neither the queue nor the cache.
\<close>

theorem cooldown_survives_error:
  assumes "queue (chan c) = []" and "isValidUID (trim data)" and "d \<noteq> 0"
  shows
    "(admit cooldownTime_000 (chan c) (trim data) currentTime \<and>
      list_all (within_window cooldownTime_000 (trim data) d) evs \<and>
      t - d < cooldownTime_000 \<longrightarrow>
        cooldownCache (chan (step_000 mode port c (Line data currentTime d))) (trim data) = Some d \<and>
        inflight (step_000 mode port c (Line data currentTime d)) = inflight c @ [trim data] \<and>
        cooldownCache (chan (run_000 mode port (Line data currentTime d # evs) c)) (trim data) =
          Some d \<and>
        \<not> admit cooldownTime_000 (chan (run_000 mode port (Line data currentTime d # evs) c))
            (trim data) t)
     \<and> (admit cooldownTime_001 (chan c) (trim data) currentTime \<and>
      list_all (within_window cooldownTime_001 (trim data) d) evs \<and>
      t - d < cooldownTime_001 \<longrightarrow>
        cooldownCache (chan (step_001 mode port c (Line data currentTime d))) (trim data) = Some d \<and>
        inflight (step_001 mode port c (Line data currentTime d)) = inflight c @ [trim data] \<and>
        cooldownCache (chan (run_001 mode port (Line data currentTime d # evs) c)) (trim data) =
          Some d \<and>
        \<not> admit cooldownTime_001 (chan (run_001 mode port (Line data currentTime d # evs) c))
            (trim data) t)
     \<and> chan (step_000 mode port c (Settle i get env)) = chan c
     \<and> chan (step_001 mode port c (Settle i get env)) = chan c
     \<and> ((\<forall>k\<le>3. is_Rejected (get k)) \<longrightarrow>
          responses (processQueue_async_000 (trim data) mode port get env) = [''Error\<newline>''] \<and>
          responses (processQueue_async_001 (trim data) mode port get env) = [''Error\<newline>''])"
proof -
  let ?u = "trim data"
  have np: "\<not> isPingResponse data"
    using assms(2) by (rule valid_not_ping)
  have a0: "admit cooldownTime_000 (chan c) ?u currentTime \<Longrightarrow>
      queue (chan (step_000 mode port c (Line data currentTime d))) = [] \<and>
      cooldownCache (chan (step_000 mode port c (Line data currentTime d))) ?u = Some d \<and>
      inflight (step_000 mode port c (Line data currentTime d)) = inflight c @ [?u]"
    using assms np
    by (simp add: handleReaderData_000_def Let_def processQueue_push_empty started_list_def)
  have a1: "admit cooldownTime_001 (chan c) ?u currentTime \<Longrightarrow>
      queue (chan (step_001 mode port c (Line data currentTime d))) = [] \<and>
      cooldownCache (chan (step_001 mode port c (Line data currentTime d))) ?u = Some d \<and>
      inflight (step_001 mode port c (Line data currentTime d)) = inflight c @ [?u]"
    using assms
    by (simp add: handleReaderData_001_def Let_def processQueue_push_empty started_list_def)
  have b0: "admit cooldownTime_000 (chan c) ?u currentTime \<and>
      list_all (within_window cooldownTime_000 ?u d) evs \<and> t - d < cooldownTime_000 \<longrightarrow>
        cooldownCache (chan (step_000 mode port c (Line data currentTime d))) ?u = Some d \<and>
        inflight (step_000 mode port c (Line data currentTime d)) = inflight c @ [?u] \<and>
        cooldownCache (chan (run_000 mode port (Line data currentTime d # evs) c)) ?u = Some d \<and>
        \<not> admit cooldownTime_000 (chan (run_000 mode port (Line data currentTime d # evs) c)) ?u t"
  proof (intro impI)
    assume h: "admit cooldownTime_000 (chan c) ?u currentTime \<and>
      list_all (within_window cooldownTime_000 ?u d) evs \<and> t - d < cooldownTime_000"
    let ?c1 = "step_000 mode port c (Line data currentTime d)"
    from h a0 have s1: "queue (chan ?c1) = []" "cooldownCache (chan ?c1) ?u = Some d"
      "inflight ?c1 = inflight c @ [?u]"
      by simp_all
    from run_000_keeps_stamp [OF s1(1) s1(2) assms(3), of evs mode port] h
    have s2: "cooldownCache (chan (run_000 mode port evs ?c1)) ?u = Some d"
      by simp
    with h assms(3) have "\<not> admit cooldownTime_000 (chan (run_000 mode port evs ?c1)) ?u t"
      by (simp add: admit_def)
    with s1 s2 show "cooldownCache (chan ?c1) ?u = Some d \<and>
        inflight ?c1 = inflight c @ [?u] \<and>
        cooldownCache (chan (run_000 mode port (Line data currentTime d # evs) c)) ?u = Some d \<and>
        \<not> admit cooldownTime_000 (chan (run_000 mode port (Line data currentTime d # evs) c)) ?u t"
      by (simp add: run_000_Cons)
  qed
  have b1: "admit cooldownTime_001 (chan c) ?u currentTime \<and>
      list_all (within_window cooldownTime_001 ?u d) evs \<and> t - d < cooldownTime_001 \<longrightarrow>
        cooldownCache (chan (step_001 mode port c (Line data currentTime d))) ?u = Some d \<and>
        inflight (step_001 mode port c (Line data currentTime d)) = inflight c @ [?u] \<and>
        cooldownCache (chan (run_001 mode port (Line data currentTime d # evs) c)) ?u = Some d \<and>
        \<not> admit cooldownTime_001 (chan (run_001 mode port (Line data currentTime d # evs) c)) ?u t"
  proof (intro impI)
    assume h: "admit cooldownTime_001 (chan c) ?u currentTime \<and>
      list_all (within_window cooldownTime_001 ?u d) evs \<and> t - d < cooldownTime_001"
    let ?c1 = "step_001 mode port c (Line data currentTime d)"
    from h a1 have s1: "queue (chan ?c1) = []" "cooldownCache (chan ?c1) ?u = Some d"
      "inflight ?c1 = inflight c @ [?u]"
      by simp_all
    from run_001_keeps_stamp [OF s1(1) s1(2) assms(3), of evs mode port] h
    have s2: "cooldownCache (chan (run_001 mode port evs ?c1)) ?u = Some d"
      by simp
    with h assms(3) have "\<not> admit cooldownTime_001 (chan (run_001 mode port evs ?c1)) ?u t"
      by (simp add: admit_def)
    with s1 s2 show "cooldownCache (chan ?c1) ?u = Some d \<and>
        inflight ?c1 = inflight c @ [?u] \<and>
        cooldownCache (chan (run_001 mode port (Line data currentTime d # evs) c)) ?u = Some d \<and>
        \<not> admit cooldownTime_001 (chan (run_001 mode port (Line data currentTime d # evs) c)) ?u t"
      by (simp add: run_001_Cons)
  qed
  have e: "chan (step_000 mode port c (Settle i get env)) = chan c"
    "chan (step_001 mode port c (Settle i get env)) = chan c"
    by simp_all
  have f: "(\<forall>k\<le>3. is_Rejected (get k)) \<longrightarrow>
          responses (processQueue_async_000 ?u mode port get env) = [''Error\<newline>''] \<and>
          responses (processQueue_async_001 ?u mode port get env) = [''Error\<newline>'']"
  proof (intro impI)
    assume r: "\<forall>k\<le>3. is_Rejected (get k)"
    then have r0: "\<forall>k. 0 \<le> k \<and> k \<le> 3 \<longrightarrow> is_Rejected (get k)"
      and r1: "\<forall>k. 0 \<le> k \<and> k < 3 \<longrightarrow> is_Rejected (get k)"
      by simp_all
    have f0: "fetchResidentDataWithRetry_000 ?u 3 get =
        (replicate 4 (DbGet ''residents'' ?u),
         Rejected (''Failed to fetch data for UID '' @ ?u @ '': '' @ message (get 3)))"
      using tryFetching_000_exhausted [of 0 3 get ?u] r0
      by (simp add: fetchResidentDataWithRetry_000_def)
    have f1: "fetchResidentDataWithRetry_001 ?u 3 get =
        (replicate 3 (DbGet ''residents'' ?u), Rejected (message (get 2)))"
      using fetchLoop_001_exhausted [of 0 3 get ?u] r1
      by (simp add: fetchResidentDataWithRetry_001_def)
    from f0 f1 show "responses (processQueue_async_000 ?u mode port get env) = [''Error\<newline>''] \<and>
          responses (processQueue_async_001 ?u mode port get env) = [''Error\<newline>'']"
      by (simp add: processQueue_async_000_def processQueue_async_001_def responses_def)
  qed
  from b0 b1 e f show ?thesis by blast
qed


theorem cooldown_survives_error_witness:
  "cooldownCache (chan (run_000 ''Vehicle Entry'' ''portVehicleEntry''
      [Line ''1A2B3C4D'' 1999 2000,
       Settle 0 (script [] (Rejected ''unavailable'')) (audit_at 2500 (Fulfilled ()) (Fulfilled ())),
       Line ''1A2B3C4D'' 3000 3001] initial)) ''1A2B3C4D'' = Some 2000
   \<and> \<not> admit cooldownTime_000 (chan (run_000 ''Vehicle Entry'' ''portVehicleEntry''
      [Line ''1A2B3C4D'' 1999 2000,
       Settle 0 (script [] (Rejected ''unavailable'')) (audit_at 2500 (Fulfilled ()) (Fulfilled ())),
       Line ''1A2B3C4D'' 3000 3001] initial)) ''1A2B3C4D'' 181999
   \<and> responses (processQueue_async_000 ''1A2B3C4D'' ''Vehicle Entry'' ''portVehicleEntry''
      (script [] (Rejected ''unavailable'')) (audit_at 2500 (Fulfilled ()) (Fulfilled ()))) =
     [''Error\<newline>'']
   \<and> cooldownCache (chan (run_001 ''Vehicle Entry'' ''portVehicleEntry''
      [Line ''1A2B3C4D'' 1999 2000,
       Settle 0 (script [] (Rejected ''unavailable'')) (audit_at 2500 (Fulfilled ()) (Fulfilled ())),
       Line ''1A2B3C4D'' 3000 3001] initial)) ''1A2B3C4D'' = Some 2000
   \<and> \<not> admit cooldownTime_001 (chan (run_001 ''Vehicle Entry'' ''portVehicleEntry''
      [Line ''1A2B3C4D'' 1999 2000,
       Settle 0 (script [] (Rejected ''unavailable'')) (audit_at 2500 (Fulfilled ()) (Fulfilled ())),
       Line ''1A2B3C4D'' 3000 3001] initial)) ''1A2B3C4D'' 11999
   \<and> responses (processQueue_async_001 ''1A2B3C4D'' ''Vehicle Entry'' ''portVehicleEntry''
      (script [] (Rejected ''unavailable'')) (audit_at 2500 (Fulfilled ()) (Fulfilled ()))) =
     [''Error\<newline>'']"
proof -
  let ?u = "''1A2B3C4D''"
  let ?get = "script [] (Rejected ''unavailable'') :: nat \<Rightarrow> snapshot settled"
  let ?env = "audit_at 2500 (Fulfilled ()) (Fulfilled ())"
  let ?evs = "[Settle 0 ?get ?env, Line ?u 3000 3001]"
  have h1: "queue (chan initial) = []"
    by (simp add: initial_def)
  have h2: "isValidUID (trim ?u)"
    by (simp add: example_tags_valid)
  have h3: "(2000::int) \<noteq> 0"
    by simp
  have h4: "admit cooldownTime_000 (chan initial) (trim ?u) 1999"
    "admit cooldownTime_001 (chan initial) (trim ?u) 1999"
    by (simp_all add: admit_def initial_def)
  have h5: "list_all (within_window cooldownTime_000 (trim ?u) 2000) ?evs"
    "list_all (within_window cooldownTime_001 (trim ?u) 2000) ?evs"
    by (simp_all add: within_window_def cooldownTime_000_def cooldownTime_001_def)
  have h6: "(181999::int) - 2000 < cooldownTime_000" "(11999::int) - 2000 < cooldownTime_001"
    by (simp_all add: cooldownTime_000_def cooldownTime_001_def)
  have h7: "\<forall>k\<le>3. is_Rejected (?get k)"
    by (simp add: script_def)
  note t0 = cooldown_survives_error [OF h1 h2 h3, where currentTime = 1999 and evs = ?evs
      and t = 181999 and mode = "''Vehicle Entry''" and port = "''portVehicleEntry''"
      and i = 0 and get = ?get and env = ?env]
  note t1 = cooldown_survives_error [OF h1 h2 h3, where currentTime = 1999 and evs = ?evs
      and t = 11999 and mode = "''Vehicle Entry''" and port = "''portVehicleEntry''"
      and i = 0 and get = ?get and env = ?env]
  from t0 h4 h5 h6 h7 have c0:
    "cooldownCache (chan (run_000 ''Vehicle Entry'' ''portVehicleEntry''
        (Line ?u 1999 2000 # ?evs) initial)) (trim ?u) = Some 2000
     \<and> \<not> admit cooldownTime_000 (chan (run_000 ''Vehicle Entry'' ''portVehicleEntry''
        (Line ?u 1999 2000 # ?evs) initial)) (trim ?u) 181999
     \<and> responses (processQueue_async_000 (trim ?u) ''Vehicle Entry'' ''portVehicleEntry'' ?get ?env) =
        [''Error\<newline>'']"
    by blast
  from t1 h4 h5 h6 h7 have c1:
    "cooldownCache (chan (run_001 ''Vehicle Entry'' ''portVehicleEntry''
        (Line ?u 1999 2000 # ?evs) initial)) (trim ?u) = Some 2000
     \<and> \<not> admit cooldownTime_001 (chan (run_001 ''Vehicle Entry'' ''portVehicleEntry''
        (Line ?u 1999 2000 # ?evs) initial)) (trim ?u) 11999
     \<and> responses (processQueue_async_001 (trim ?u) ''Vehicle Entry'' ''portVehicleEntry'' ?get ?env) =
        [''Error\<newline>'']"
    by blast
  from c0 c1 show ?thesis
    by (simp add: example_tags_valid)
qed

subsection \<open>Dequeue is immediate\<close>

lemma handleReaderData_000_queue_empty:
  "queue s = [] \<Longrightarrow>
   queue (fst (handleReaderData_000 data mode s port currentTime dequeueTime)) = []"
  by (simp add: handleReaderData_000_def Let_def processQueue_push_empty)

lemma handleReaderData_001_queue_empty:
  "queue s = [] \<Longrightarrow>
   queue (fst (handleReaderData_001 data mode s port currentTime dequeueTime)) = []"
  by (simp add: handleReaderData_001_def Let_def processQueue_push_empty)

lemma step_000_queue_empty:
  "queue (chan c) = [] \<Longrightarrow> queue (chan (step_000 mode port c ev)) = []"
  by (cases ev) (simp_all add: case_prod_beta handleReaderData_000_queue_empty)

lemma step_001_queue_empty:
  "queue (chan c) = [] \<Longrightarrow> queue (chan (step_001 mode port c ev)) = []"
  by (cases ev) (simp_all add: case_prod_beta handleReaderData_001_queue_empty)

lemma run_000_queue_empty:
  "queue (chan c) = [] \<Longrightarrow> queue (chan (run_000 mode port evs c)) = []"
  by (induction evs arbitrary: c) (simp_all add: run_000_def step_000_queue_empty)

lemma run_001_queue_empty:
  "queue (chan c) = [] \<Longrightarrow> queue (chan (run_001 mode port evs c)) = []"
  by (induction evs arbitrary: c) (simp_all add: run_001_def step_001_queue_empty)

text \<open>
  Claim C9, as the code has it. In every state a channel can reach from its initial one:
  \<^item> the pending queue is empty, because the \<open>processQueue\<close> call that an admission makes
    dequeues the tag it has just pushed;
  \<^item> so an admitted tag joins the resolutions in flight at once, whatever is already in
    flight: nothing waits for an earlier resolution to settle;
  \<^item> a resolution leaves the in-flight list when it settles, and its response is written
    then, after the responses of the resolutions that settled before it.
\<close>

theorem immediate_dequeue:
  "queue (chan (run_000 mode port evs initial)) = []
   \<and> queue (chan (run_001 mode port evs initial)) = []
   \<and> (isValidUID (trim data) \<and>
        admit cooldownTime_000 (chan (run_000 mode port evs initial)) (trim data) currentTime \<longrightarrow>
        inflight (step_000 mode port (run_000 mode port evs initial) (Line data currentTime d)) =
          inflight (run_000 mode port evs initial) @ [trim data])
   \<and> (isValidUID (trim data) \<and>
        admit cooldownTime_001 (chan (run_001 mode port evs initial)) (trim data) currentTime \<longrightarrow>
        inflight (step_001 mode port (run_001 mode port evs initial) (Line data currentTime d)) =
          inflight (run_001 mode port evs initial) @ [trim data])
   \<and> (i < length (inflight c) \<longrightarrow>
        inflight (step_000 mode port c (Settle i get env)) =
          take i (inflight c) @ drop (Suc i) (inflight c) \<and>
        responses (emitted (step_000 mode port c (Settle i get env))) =
          responses (emitted c) @ responses (processQueue_async_000 (inflight c ! i) mode port get env) \<and>
        inflight (step_001 mode port c (Settle i get env)) =
          take i (inflight c) @ drop (Suc i) (inflight c) \<and>
        responses (emitted (step_001 mode port c (Settle i get env))) =
          responses (emitted c) @ responses (processQueue_async_001 (inflight c ! i) mode port get env))"
proof -
  have e: "queue (chan initial) = []"
    by (simp add: initial_def)
  have q0: "queue (chan (run_000 mode port evs initial)) = []"
    using e by (rule run_000_queue_empty)
  have q1: "queue (chan (run_001 mode port evs initial)) = []"
    using e by (rule run_001_queue_empty)
  have a0: "isValidUID (trim data) \<and>
        admit cooldownTime_000 (chan (run_000 mode port evs initial)) (trim data) currentTime \<longrightarrow>
        inflight (step_000 mode port (run_000 mode port evs initial) (Line data currentTime d)) =
          inflight (run_000 mode port evs initial) @ [trim data]"
    using q0 valid_not_ping [of data]
    by (auto simp: handleReaderData_000_def Let_def processQueue_push_empty started_list_def)
  have a1: "isValidUID (trim data) \<and>
        admit cooldownTime_001 (chan (run_001 mode port evs initial)) (trim data) currentTime \<longrightarrow>
        inflight (step_001 mode port (run_001 mode port evs initial) (Line data currentTime d)) =
          inflight (run_001 mode port evs initial) @ [trim data]"
    using q1
    by (auto simp: handleReaderData_001_def Let_def processQueue_push_empty started_list_def)
  have s: "i < length (inflight c) \<longrightarrow>
        inflight (step_000 mode port c (Settle i get env)) =
          take i (inflight c) @ drop (Suc i) (inflight c) \<and>
        responses (emitted (step_000 mode port c (Settle i get env))) =
          responses (emitted c) @ responses (processQueue_async_000 (inflight c ! i) mode port get env) \<and>
        inflight (step_001 mode port c (Settle i get env)) =
          take i (inflight c) @ drop (Suc i) (inflight c) \<and>
        responses (emitted (step_001 mode port c (Settle i get env))) =
          responses (emitted c) @ responses (processQueue_async_001 (inflight c ! i) mode port get env)"
    by simp
  from q0 q1 a0 a1 s show ?thesis by blast
qed

theorem immediate_dequeue_witness:
  "inflight (step_000 ''Vehicle Entry'' ''portVehicleEntry''
      (run_000 ''Vehicle Entry'' ''portVehicleEntry'' [Line ''1A2B3C4D'' 1000 1001] initial)
      (Line ''deadbeef'' 2000 2001)) =
     inflight (run_000 ''Vehicle Entry'' ''portVehicleEntry'' [Line ''1A2B3C4D'' 1000 1001] initial)
       @ [''deadbeef'']
   \<and> inflight (step_001 ''Vehicle Entry'' ''portVehicleEntry''
      (run_001 ''Vehicle Entry'' ''portVehicleEntry'' [Line ''1A2B3C4D'' 1000 1001] initial)
      (Line ''deadbeef'' 2000 2001)) =
     inflight (run_001 ''Vehicle Entry'' ''portVehicleEntry'' [Line ''1A2B3C4D'' 1000 1001] initial)
       @ [''deadbeef'']
   \<and> inflight (step_000 ''Vehicle Entry'' ''portVehicleEntry''
      \<lparr>chan = chan initial, inflight = [''1A2B3C4D'', ''deadbeef''], emitted = []\<rparr>
      (Settle 1 (script [] (Fulfilled NoDocument)) (audit_at 3000 (Fulfilled ()) (Fulfilled ())))) =
     [''1A2B3C4D'']"
proof -
  let ?c0 = "run_000 ''Vehicle Entry'' ''portVehicleEntry'' [Line ''1A2B3C4D'' 1000 1001] initial"
  let ?c1 = "run_001 ''Vehicle Entry'' ''portVehicleEntry'' [Line ''1A2B3C4D'' 1000 1001] initial"
  let ?c2 = "\<lparr>chan = chan initial, inflight = [''1A2B3C4D'', ''deadbeef''], emitted = []\<rparr>"
  note t = immediate_dequeue [where mode = "''Vehicle Entry''" and port = "''portVehicleEntry''"
      and evs = "[Line ''1A2B3C4D'' 1000 1001]" and data = "''deadbeef''" and currentTime = 2000
      and d = 2001 and i = 1 and c = ?c2 and get = "script [] (Fulfilled NoDocument)"
      and env = "audit_at 3000 (Fulfilled ()) (Fulfilled ())"]
  from t have q: "queue (chan ?c0) = []" "queue (chan ?c1) = []"
    by blast+
  have n: "cooldownCache (chan ?c0) ''deadbeef'' = None" "cooldownCache (chan ?c1) ''deadbeef'' = None"
    by (simp_all add: run_000_def run_001_def handleReaderData_000_def handleReaderData_001_def
          isPingResponse_def toLowerCase_def example_tags_valid admit_def initial_def
          processQueue_def push_def Let_def)
  from q n have ad: "admit cooldownTime_000 (chan ?c0) (trim ''deadbeef'') 2000"
    "admit cooldownTime_001 (chan ?c1) (trim ''deadbeef'') 2000"
    by (simp_all add: admit_def example_tags_valid)
  have v: "isValidUID (trim ''deadbeef'')"
    by (simp add: example_tags_valid)
  have l: "(1::nat) < length (inflight ?c2)"
    by simp
  from t ad v have c0: "inflight (step_000 ''Vehicle Entry'' ''portVehicleEntry'' ?c0
      (Line ''deadbeef'' 2000 2001)) = inflight ?c0 @ [trim ''deadbeef'']"
    by blast
  from t ad v have c1: "inflight (step_001 ''Vehicle Entry'' ''portVehicleEntry'' ?c1
      (Line ''deadbeef'' 2000 2001)) = inflight ?c1 @ [trim ''deadbeef'']"
    by blast
  from t l have c2: "inflight (step_000 ''Vehicle Entry'' ''portVehicleEntry'' ?c2
      (Settle 1 (script [] (Fulfilled NoDocument)) (audit_at 3000 (Fulfilled ()) (Fulfilled ())))) =
      take 1 (inflight ?c2) @ drop (Suc 1) (inflight ?c2)"
    by blast
  from c0 c1 c2 show ?thesis
    by (simp add: example_tags_valid)
qed

text \<open>
  Claim C9 as stated fails: after two admitted lines both resolutions are in flight (the
  second tag was dequeued while the first had not settled), and when the store answers
  the second one first, its response is written before the response of the first.
\<close>

theorem immediate_dequeue_counterexample:
  "inflight (run_000 ''Vehicle Entry'' ''portVehicleEntry''
      [Line ''1A2B3C4D'' 1000 1001, Line ''deadbeef'' 2000 2001] initial) =
     [''1A2B3C4D'', ''deadbeef'']
   \<and> responses (emitted (run_000 ''Vehicle Entry'' ''portVehicleEntry''
      [Line ''1A2B3C4D'' 1000 1001, Line ''deadbeef'' 2000 2001,
       Settle 1 (script [] (Fulfilled NoDocument)) (audit_at 3000 (Fulfilled ()) (Fulfilled ())),
       Settle 0 (script [] (Fulfilled (Document [(''assigned'', JBool True)])))
         (audit_at 4000 (Fulfilled ()) (Fulfilled ()))] initial)) =
     [''Resident Not Found\<newline>'', ''Resident Found\<newline>'']
   \<and> inflight (run_001 ''Vehicle Entry'' ''portVehicleEntry''
      [Line ''1A2B3C4D'' 1000 1001, Line ''deadbeef'' 2000 2001] initial) =
     [''1A2B3C4D'', ''deadbeef'']"
  by (simp add: run_000_def run_001_def handleReaderData_000_def handleReaderData_001_def
        isPingResponse_def toLowerCase_def example_tags_valid admit_def initial_def
        processQueue_def push_def started_list_def processQueue_async_000_def
        fetchResidentDataWithRetry_000_def tryFetching_000.simps script_def snapshot_data_def
        logToFirebase_000_def audit_at_def Let_def)

subsection \<open>Validation of a line\<close>

lemma ping_examples:
  "isPingResponse ''ping''" "isPingResponse ''PING''" "isPingResponse '' Ping \<newline>''"
  by code_simp+

text \<open>
  Claim C7, as the code has it. After trimming:
  \<^item> a tag is valid exactly when it has eight hexadecimal digits of either case; a valid
    tag is never a ping, and it is handed on as it was read, trimmed and with its letter
    case kept (it is the key under which it is stamped, queued and resolved);
  \<^item> on the reader channels of the first variant a line that is "ping" in any letter case
    is dropped with one INFO line: no error is logged, the state is unchanged, nothing is
    started and nothing is answered;
  \<^item> on the reader channels any other line that is invalid is logged as an error and
    dropped: the state is unchanged, nothing is started, nothing is answered; the second
    variant, which has no check for "ping", does this for every invalid line;
  \<^item> on the enrollment channel an invalid line is logged as an error and dropped before
    any store call and without a response.
\<close>

theorem validate_line:
  "(isValidUID uid \<longleftrightarrow> length uid = 8 \<and> set uid \<subseteq> set ''0123456789ABCDEFabcdef'')
   \<and> (isValidUID (trim data) \<longrightarrow> \<not> isPingResponse data)
   \<and> (isValidUID (trim data) \<and> queue s = [] \<and> admit cooldownTime_000 s (trim data) currentTime \<longrightarrow>
        snd (snd (handleReaderData_000 data mode s port currentTime d)) = Some (trim data) \<and>
        cooldownCache (fst (handleReaderData_000 data mode s port currentTime d)) (trim data) = Some d \<and>
        errors_logged (fst (snd (handleReaderData_000 data mode s port currentTime d))) = [])
   \<and> (isValidUID (trim data) \<and> queue s = [] \<and> admit cooldownTime_001 s (trim data) currentTime \<longrightarrow>
        snd (snd (handleReaderData_001 data mode s port currentTime d)) = Some (trim data) \<and>
        cooldownCache (fst (handleReaderData_001 data mode s port currentTime d)) (trim data) = Some d \<and>
        errors_logged (fst (snd (handleReaderData_001 data mode s port currentTime d))) = [])
   \<and> (isPingResponse data \<longrightarrow>
        handleReaderData_000 data mode s port currentTime d =
          (s, [Log INFO (''Ping response received on '' @ mode @ ''. Ignoring...'')], None))
   \<and> (\<not> isPingResponse data \<and> \<not> isValidUID (trim data) \<longrightarrow>
        fst (handleReaderData_000 data mode s port currentTime d) = s \<and>
        snd (snd (handleReaderData_000 data mode s port currentTime d)) = None \<and>
        responses (fst (snd (handleReaderData_000 data mode s port currentTime d))) = [] \<and>
        errors_logged (fst (snd (handleReaderData_000 data mode s port currentTime d))) =
          [''Invalid UID received on '' @ mode @ '': '' @ trim data])
   \<and> (\<not> isValidUID (trim data) \<longrightarrow>
        handleReaderData_001 data mode s port currentTime d =
          (s, [ConsoleError (''Invalid UID received on '' @ mode @ '': '' @ trim data)], None))
   \<and> (\<not> isValidUID (trim data) \<longrightarrow>
        responses (parserAssign_onData_000 data got created) = [] \<and>
        reads (parserAssign_onData_000 data got created) = [] \<and>
        writes (parserAssign_onData_000 data got created) = [] \<and>
        errors_logged (parserAssign_onData_000 data got created) =
          [''Invalid UID received on Assign: '' @ trim data] \<and>
        parserAssign_onData_001 data got created =
          [ConsoleError (''Invalid UID received on Assign: '' @ trim data)])"
proof -
  have v: "isValidUID uid \<longleftrightarrow> length uid = 8 \<and> set uid \<subseteq> set ''0123456789ABCDEFabcdef''"
    unfolding isValidUID_def isHexDigit_def list_all_iff by blast
  have np: "isValidUID (trim data) \<longrightarrow> \<not> isPingResponse data"
    using valid_not_ping [of data] by blast
  have a0: "isValidUID (trim data) \<and> queue s = [] \<and>
        admit cooldownTime_000 s (trim data) currentTime \<longrightarrow>
        snd (snd (handleReaderData_000 data mode s port currentTime d)) = Some (trim data) \<and>
        cooldownCache (fst (handleReaderData_000 data mode s port currentTime d)) (trim data) = Some d \<and>
        errors_logged (fst (snd (handleReaderData_000 data mode s port currentTime d))) = []"
    using valid_not_ping [of data]
    by (auto simp: handleReaderData_000_def Let_def processQueue_push_empty)
  have a1: "isValidUID (trim data) \<and> queue s = [] \<and>
        admit cooldownTime_001 s (trim data) currentTime \<longrightarrow>
        snd (snd (handleReaderData_001 data mode s port currentTime d)) = Some (trim data) \<and>
        cooldownCache (fst (handleReaderData_001 data mode s port currentTime d)) (trim data) = Some d \<and>
        errors_logged (fst (snd (handleReaderData_001 data mode s port currentTime d))) = []"
    by (auto simp: handleReaderData_001_def Let_def processQueue_push_empty)
  have p: "isPingResponse data \<longrightarrow>
        handleReaderData_000 data mode s port currentTime d =
          (s, [Log INFO (''Ping response received on '' @ mode @ ''. Ignoring...'')], None)"
    by (simp add: handleReaderData_000_def)
  have i0: "\<not> isPingResponse data \<and> \<not> isValidUID (trim data) \<longrightarrow>
        fst (handleReaderData_000 data mode s port currentTime d) = s \<and>
        snd (snd (handleReaderData_000 data mode s port currentTime d)) = None \<and>
        responses (fst (snd (handleReaderData_000 data mode s port currentTime d))) = [] \<and>
        errors_logged (fst (snd (handleReaderData_000 data mode s port currentTime d))) =
          [''Invalid UID received on '' @ mode @ '': '' @ trim data]"
    by (simp add: handleReaderData_000_def Let_def)
  have i1: "\<not> isValidUID (trim data) \<longrightarrow>
        handleReaderData_001 data mode s port currentTime d =
          (s, [ConsoleError (''Invalid UID received on '' @ mode @ '': '' @ trim data)], None)"
    by (simp add: handleReaderData_001_def Let_def)
  have e: "\<not> isValidUID (trim data) \<longrightarrow>
        responses (parserAssign_onData_000 data got created) = [] \<and>
        reads (parserAssign_onData_000 data got created) = [] \<and>
        writes (parserAssign_onData_000 data got created) = [] \<and>
        errors_logged (parserAssign_onData_000 data got created) =
          [''Invalid UID received on Assign: '' @ trim data] \<and>
        parserAssign_onData_001 data got created =
          [ConsoleError (''Invalid UID received on Assign: '' @ trim data)]"
    by (simp add: parserAssign_onData_000_def parserAssign_onData_001_def Let_def)
  from v np a0 a1 p i0 i1 e show ?thesis by blast
qed

lemma example_lines_invalid:
  "\<not> isPingResponse ''1A2B3C4'' \<and> \<not> isValidUID (trim ''1A2B3C4'')"
  "\<not> isValidUID (trim ''ping'')"
  "\<not> isValidUID (trim ''1A2B3C4G'')"
  by (simp_all add: isPingResponse_def toLowerCase_def trim_def isWhiteSpace_def
        isValidUID_def isHexDigit_def)

lemma example_line_trimmed:
  "trim '' deadbeef\<newline>'' = ''deadbeef''"
  by (simp add: trim_def isWhiteSpace_def)

theorem validate_line_witness:
  "isValidUID ''deadBEEF''
   \<and> snd (snd (handleReaderData_000 '' deadbeef\<newline>'' ''Walk-out'' (chan initial) ''portWalkOut''
        1000 1001)) = Some ''deadbeef''
   \<and> snd (snd (handleReaderData_001 '' deadbeef\<newline>'' ''Walk Out'' (chan initial) ''portWalkOut''
        1000 1001)) = Some ''deadbeef''
   \<and> handleReaderData_000 '' Ping \<newline>'' ''Walk-out'' (chan initial) ''portWalkOut'' 1000 1001 =
       (chan initial, [Log INFO ''Ping response received on Walk-out. Ignoring...''], None)
   \<and> errors_logged (fst (snd (handleReaderData_000 ''1A2B3C4'' ''Walk-out'' (chan initial)
        ''portWalkOut'' 1000 1001))) = [''Invalid UID received on Walk-out: 1A2B3C4'']
   \<and> handleReaderData_001 ''1A2B3C4G'' ''Walk Out'' (chan initial) ''portWalkOut'' 1000 1001 =
       (chan initial, [ConsoleError ''Invalid UID received on Walk Out: 1A2B3C4G''], None)
   \<and> responses (parserAssign_onData_000 ''1A2B3C4G'' (Fulfilled NoDocument) (Fulfilled ())) = []"
proof -
  let ?s = "chan initial"
  note t = validate_line [where s = ?s and port = "''portWalkOut''" and currentTime = 1000
      and d = 1001 and got = "Fulfilled NoDocument" and created = "Fulfilled ()"]
  have q: "queue ?s = []"
    by (simp add: initial_def)
  have ad: "admit cooldownTime_000 ?s ''deadbeef'' 1000" "admit cooldownTime_001 ?s ''deadbeef'' 1000"
    by (simp_all add: admit_def initial_def)
  have c1: "isValidUID ''deadBEEF''"
    using t [where uid = "''deadBEEF''" and data = "''x''" and mode = "''Walk-out''"] by simp
  have c2: "snd (snd (handleReaderData_000 '' deadbeef\<newline>'' ''Walk-out'' ?s ''portWalkOut''
        1000 1001)) = Some ''deadbeef''"
    using t [where uid = "''x''" and data = "'' deadbeef\<newline>''" and mode = "''Walk-out''"] q ad
    by (simp add: example_line_trimmed example_tags_valid)
  have c3: "snd (snd (handleReaderData_001 '' deadbeef\<newline>'' ''Walk Out'' ?s ''portWalkOut''
        1000 1001)) = Some ''deadbeef''"
    using t [where uid = "''x''" and data = "'' deadbeef\<newline>''" and mode = "''Walk Out''"] q ad
    by (simp add: example_line_trimmed example_tags_valid)
  have c4: "handleReaderData_000 '' Ping \<newline>'' ''Walk-out'' ?s ''portWalkOut'' 1000 1001 =
       (?s, [Log INFO ''Ping response received on Walk-out. Ignoring...''], None)"
    using t [where uid = "''x''" and data = "'' Ping \<newline>''" and mode = "''Walk-out''"]
      ping_examples(3)
    by simp
  have c5: "errors_logged (fst (snd (handleReaderData_000 ''1A2B3C4'' ''Walk-out'' ?s
        ''portWalkOut'' 1000 1001))) = [''Invalid UID received on Walk-out: 1A2B3C4'']"
    using t [where uid = "''x''" and data = "''1A2B3C4''" and mode = "''Walk-out''"]
      example_lines_invalid(1)
    by (simp add: trim_def isWhiteSpace_def)
  have c6: "handleReaderData_001 ''1A2B3C4G'' ''Walk Out'' ?s ''portWalkOut'' 1000 1001 =
       (?s, [ConsoleError ''Invalid UID received on Walk Out: 1A2B3C4G''], None)"
    using t [where uid = "''x''" and data = "''1A2B3C4G''" and mode = "''Walk Out''"]
      example_lines_invalid(3)
    by (simp add: trim_def isWhiteSpace_def)
  have c7: "responses (parserAssign_onData_000 ''1A2B3C4G'' (Fulfilled NoDocument) (Fulfilled ())) = []"
    using t [where uid = "''x''" and data = "''1A2B3C4G''" and mode = "''Walk Out''"]
      example_lines_invalid(3)
    by simp
  from c1 c2 c3 c4 c5 c6 c7 show ?thesis by blast
qed

text \<open>
  Claim C7 as stated fails on normalisation: the line "deadbeef" is handed on, stamped
  and resolved as "deadbeef"; nothing is stored under "DEADBEEF". And in the second
  variant "ping" is reported as an invalid tag.
\<close>

theorem validate_line_counterexample:
  "snd (snd (handleReaderData_000 ''deadbeef'' ''Walk-out'' (chan initial) ''portWalkOut''
        1000 1001)) = Some ''deadbeef''
   \<and> cooldownCache (fst (handleReaderData_000 ''deadbeef'' ''Walk-out'' (chan initial)
        ''portWalkOut'' 1000 1001)) ''DEADBEEF'' = None
   \<and> reads (processQueue_async_000 ''deadbeef'' ''Walk-out'' ''portWalkOut''
        (script [] (Fulfilled NoDocument)) (audit_at 1002 (Fulfilled ()) (Fulfilled ()))) =
       [(''residents'', ''deadbeef'')]
   \<and> handleReaderData_001 ''ping'' ''Walk Out'' (chan initial) ''portWalkOut'' 1000 1001 =
       (chan initial, [ConsoleError ''Invalid UID received on Walk Out: ping''], None)"
  by (simp add: handleReaderData_000_def handleReaderData_001_def isPingResponse_def
        toLowerCase_def example_tags_valid example_lines_invalid admit_def initial_def
        processQueue_def push_def Let_def processQueue_async_000_def
        fetchResidentDataWithRetry_000_def tryFetching_000.simps script_def snapshot_data_def
        logToFirebase_000_def audit_at_def trim_def isWhiteSpace_def isValidUID_def
        isHexDigit_def)

subsection \<open>Enrollment\<close>

text \<open>
  Claim C8. For a line with a valid tag on the enrollment channel, in every variant:
  \<^item> no document and the create fulfilled: the document \<open>{assigned: false}\<close> is written
    under the tag and the response is \<open>New Resident Created\<close>;
  \<^item> a document with \<open>assigned = false\<close>: the response is \<open>UID Not Assigned\<close>;
  \<^item> a document whose \<open>assigned\<close> is \<open>true\<close> or any other truthy value: the response is
    \<open>Resident Found\<close>;
  \<^item> the read rejected, or no document and the create rejected: the response is \<open>Error\<close>;
  \<^item> there is one read of \<open>residents\<close>, every write goes to \<open>residents\<close> (no audit
    write), and the handler takes no queue and no cooldown cache.
\<close>

theorem enrollment_pipeline:
  assumes "isValidUID (trim data)"
  shows
    "(got = Fulfilled NoDocument \<and> created = Fulfilled () \<longrightarrow>
        responses (parserAssign_onData_000 data got created) = [''New Resident Created\<newline>''] \<and>
        DbSet ''residents'' (trim data) [(''assigned'', JBool False)]
          \<in> set (parserAssign_onData_000 data got created) \<and>
        responses (parserAssign_onData_001 data got created) = [''New Resident Created\<newline>''] \<and>
        DbSet ''residents'' (trim data) [(''assigned'', JBool False)]
          \<in> set (parserAssign_onData_001 data got created))
     \<and> (got = Fulfilled (Document residentData) \<and>
         map_of residentData ''assigned'' = Some (JBool False) \<longrightarrow>
        responses (parserAssign_onData_000 data got created) = [''UID Not Assigned\<newline>''] \<and>
        writes (parserAssign_onData_000 data got created) = [] \<and>
        responses (parserAssign_onData_001 data got created) = [''UID Not Assigned\<newline>''] \<and>
        writes (parserAssign_onData_001 data got created) = [])
     \<and> (got = Fulfilled (Document residentData) \<and>
         map_of residentData ''assigned'' = Some v \<and> truthy v \<longrightarrow>
        responses (parserAssign_onData_000 data got created) = [''Resident Found\<newline>''] \<and>
        writes (parserAssign_onData_000 data got created) = [] \<and>
        responses (parserAssign_onData_001 data got created) = [''Resident Found\<newline>''] \<and>
        writes (parserAssign_onData_001 data got created) = [])
     \<and> (got = Rejected e \<longrightarrow>
        responses (parserAssign_onData_000 data got created) = [''Error\<newline>''] \<and>
        writes (parserAssign_onData_000 data got created) = [] \<and>
        responses (parserAssign_onData_001 data got created) = [''Error\<newline>''] \<and>
        writes (parserAssign_onData_001 data got created) = [])
     \<and> (got = Fulfilled NoDocument \<and> created = Rejected e \<longrightarrow>
        responses (parserAssign_onData_000 data got created) = [''Error\<newline>''] \<and>
        responses (parserAssign_onData_001 data got created) = [''Error\<newline>''])
     \<and> reads (parserAssign_onData_000 data got created) = [(''residents'', trim data)]
     \<and> reads (parserAssign_onData_001 data got created) = [(''residents'', trim data)]
     \<and> list_all (\<lambda>w. w = (''residents'', trim data)) (writes (parserAssign_onData_000 data got created))
     \<and> list_all (\<lambda>w. w = (''residents'', trim data)) (writes (parserAssign_onData_001 data got created))"
proof -
  have new: "got = Fulfilled NoDocument \<and> created = Fulfilled () \<longrightarrow>
        responses (parserAssign_onData_000 data got created) = [''New Resident Created\<newline>''] \<and>
        DbSet ''residents'' (trim data) [(''assigned'', JBool False)]
          \<in> set (parserAssign_onData_000 data got created) \<and>
        responses (parserAssign_onData_001 data got created) = [''New Resident Created\<newline>''] \<and>
        DbSet ''residents'' (trim data) [(''assigned'', JBool False)]
          \<in> set (parserAssign_onData_001 data got created)"
    using assms by (simp add: parserAssign_onData_000_def parserAssign_onData_001_def Let_def)
  have unassigned: "got = Fulfilled (Document residentData) \<and>
         map_of residentData ''assigned'' = Some (JBool False) \<longrightarrow>
        responses (parserAssign_onData_000 data got created) = [''UID Not Assigned\<newline>''] \<and>
        writes (parserAssign_onData_000 data got created) = [] \<and>
        responses (parserAssign_onData_001 data got created) = [''UID Not Assigned\<newline>''] \<and>
        writes (parserAssign_onData_001 data got created) = []"
    using assms by (simp add: parserAssign_onData_000_def parserAssign_onData_001_def Let_def)
  have found: "got = Fulfilled (Document residentData) \<and>
         map_of residentData ''assigned'' = Some v \<and> truthy v \<longrightarrow>
        responses (parserAssign_onData_000 data got created) = [''Resident Found\<newline>''] \<and>
        writes (parserAssign_onData_000 data got created) = [] \<and>
        responses (parserAssign_onData_001 data got created) = [''Resident Found\<newline>''] \<and>
        writes (parserAssign_onData_001 data got created) = []"
    using assms
    by (auto simp: parserAssign_onData_000_def parserAssign_onData_001_def Let_def truthy_def)
  have failed: "got = Rejected e \<longrightarrow>
        responses (parserAssign_onData_000 data got created) = [''Error\<newline>''] \<and>
        writes (parserAssign_onData_000 data got created) = [] \<and>
        responses (parserAssign_onData_001 data got created) = [''Error\<newline>''] \<and>
        writes (parserAssign_onData_001 data got created) = []"
    using assms by (simp add: parserAssign_onData_000_def parserAssign_onData_001_def Let_def)
  have uncreated: "got = Fulfilled NoDocument \<and> created = Rejected e \<longrightarrow>
        responses (parserAssign_onData_000 data got created) = [''Error\<newline>''] \<and>
        responses (parserAssign_onData_001 data got created) = [''Error\<newline>'']"
    using assms by (simp add: parserAssign_onData_000_def parserAssign_onData_001_def Let_def)
  have r: "reads (parserAssign_onData_000 data got created) = [(''residents'', trim data)] \<and>
      reads (parserAssign_onData_001 data got created) = [(''residents'', trim data)] \<and>
      list_all (\<lambda>w. w = (''residents'', trim data)) (writes (parserAssign_onData_000 data got created)) \<and>
      list_all (\<lambda>w. w = (''residents'', trim data)) (writes (parserAssign_onData_001 data got created))"
  proof (cases got)
    case (Rejected msg)
    with assms show ?thesis
      by (simp add: parserAssign_onData_000_def parserAssign_onData_001_def Let_def)
  next
    case (Fulfilled docSnapshot)
    with assms show ?thesis
      by (cases docSnapshot; cases created)
        (simp_all add: parserAssign_onData_000_def parserAssign_onData_001_def Let_def)
  qed
  from new unassigned found failed uncreated r show ?thesis by blast
qed

theorem enrollment_pipeline_witness:
  "responses (parserAssign_onData_000 ''00000000'' (Fulfilled NoDocument) (Fulfilled ())) =
     [''New Resident Created\<newline>'']
   \<and> writes (parserAssign_onData_001 ''00000000'' (Fulfilled NoDocument) (Fulfilled ())) =
     [(''residents'', ''00000000'')]
   \<and> responses (parserAssign_onData_000 ''00000000''
       (Fulfilled (Document [(''assigned'', JBool False)])) (Fulfilled ())) = [''UID Not Assigned\<newline>'']
   \<and> responses (parserAssign_onData_001 ''00000000''
       (Fulfilled (Document [(''assigned'', JStr ''yes'')])) (Fulfilled ())) = [''Resident Found\<newline>'']
   \<and> responses (parserAssign_onData_000 ''00000000'' (Rejected ''unavailable'') (Fulfilled ())) =
     [''Error\<newline>'']
   \<and> responses (parserAssign_onData_001 ''00000000'' (Fulfilled NoDocument) (Rejected ''denied'')) =
     [''Error\<newline>'']"
proof -
  have v: "isValidUID (trim ''00000000'')"
    by (simp add: example_tags_valid)
  have c1: "responses (parserAssign_onData_000 ''00000000'' (Fulfilled NoDocument) (Fulfilled ())) =
     [''New Resident Created\<newline>'']"
    using enrollment_pipeline [OF v, where got = "Fulfilled NoDocument" and created = "Fulfilled ()"]
    by simp
  have c2: "writes (parserAssign_onData_001 ''00000000'' (Fulfilled NoDocument) (Fulfilled ())) =
     [(''residents'', ''00000000'')]"
  proof -
    from enrollment_pipeline [OF v, where got = "Fulfilled NoDocument" and created = "Fulfilled ()"]
    have m: "DbSet ''residents'' (trim ''00000000'') [(''assigned'', JBool False)]
          \<in> set (parserAssign_onData_001 ''00000000'' (Fulfilled NoDocument) (Fulfilled ()))"
      and a: "list_all (\<lambda>w. w = (''residents'', trim ''00000000''))
          (writes (parserAssign_onData_001 ''00000000'' (Fulfilled NoDocument) (Fulfilled ())))"
      by simp_all
    from m a show ?thesis
      by (simp add: parserAssign_onData_001_def example_tags_valid Let_def)
  qed
  have c3: "responses (parserAssign_onData_000 ''00000000''
       (Fulfilled (Document [(''assigned'', JBool False)])) (Fulfilled ())) = [''UID Not Assigned\<newline>'']"
    using enrollment_pipeline [OF v, where got = "Fulfilled (Document [(''assigned'', JBool False)])"
        and created = "Fulfilled ()" and residentData = "[(''assigned'', JBool False)]"]
    by simp
  have c4: "responses (parserAssign_onData_001 ''00000000''
       (Fulfilled (Document [(''assigned'', JStr ''yes'')])) (Fulfilled ())) = [''Resident Found\<newline>'']"
    using enrollment_pipeline [OF v, where got = "Fulfilled (Document [(''assigned'', JStr ''yes'')])"
        and created = "Fulfilled ()" and residentData = "[(''assigned'', JStr ''yes'')]"
        and v = "JStr ''yes''"]
    by (simp add: truthy_def)
  have c5: "responses (parserAssign_onData_000 ''00000000'' (Rejected ''unavailable'') (Fulfilled ())) =
     [''Error\<newline>'']"
    using enrollment_pipeline [OF v, where got = "Rejected ''unavailable''" and created = "Fulfilled ()"
        and e = "''unavailable''"]
    by simp
  have c6: "responses (parserAssign_onData_001 ''00000000'' (Fulfilled NoDocument) (Rejected ''denied'')) =
     [''Error\<newline>'']"
    using enrollment_pipeline [OF v, where got = "Fulfilled NoDocument" and created = "Rejected ''denied''"
        and e = "''denied''"]
    by simp
  from c1 c2 c3 c4 c5 c6 show ?thesis by blast
qed

end
